theory Spec2Isabelle
  imports Complex_Main "HOL-Library.Sublist"
begin

section \<open>Strings\<close>

text \<open>
  JavaScript strings are modelled as \<open>string\<close> (lists of \<open>char\<close>); a \<open>char\<close> stands for
  one code unit below 256.  \<open>js_includes\<close> is \<open>String.prototype.includes\<close>: the argument
  occurs as a contiguous substring.
\<close>

fun js_includes :: "string \<Rightarrow> string \<Rightarrow> bool" where
  "js_includes [] t = (t = [])"
| "js_includes (c # cs) t = (prefix t (c # cs) \<or> js_includes cs t)"

section \<open>Eclipse type classifier\<close>

text \<open>
  \<open>extractEclipseType\<close> as the birthday matcher and the type-detection script define it:
  fixed markers of the NASA catalogue line, then a generic label, and for any other
  category the capitalised category followed by \<open>Eclipse\<close> (capitalising is modelled for
  the letters a to z only; the callers pass \<open>solar\<close> and \<open>lunar\<close>).
\<close>

definition toUpperCase_char :: "char \<Rightarrow> char" where
  "toUpperCase_char c =
     (if 97 \<le> (of_char c :: nat) \<and> (of_char c :: nat) \<le> 122
      then char_of ((of_char c :: nat) - 32) else c)"

definition capitalised :: "string \<Rightarrow> string" where
  "capitalised s = (case s of [] \<Rightarrow> [] | c # cs \<Rightarrow> toUpperCase_char c # cs)"

definition extractEclipseType :: "string \<Rightarrow> string \<Rightarrow> string" where
  "extractEclipseType description eclipseCategory =
     (if eclipseCategory = ''solar'' then
        (if js_includes description ''   T   '' then ''Total Solar Eclipse''
         else if js_includes description ''   A   '' then ''Annular Solar Eclipse''
         else if js_includes description ''   P   '' then ''Partial Solar Eclipse''
         else if js_includes description ''   H   '' then ''Hybrid Solar Eclipse''
         else ''Solar Eclipse'')
      else if eclipseCategory = ''lunar'' then
        (if js_includes description ''   T-  '' \<or> js_includes description ''   T+  ''
           then ''Total Lunar Eclipse''
         else if js_includes description ''   P   '' then ''Partial Lunar Eclipse''
         else if js_includes description ''   N   '' then ''Penumbral Lunar Eclipse''
         else ''Lunar Eclipse'')
      else capitalised eclipseCategory @ '' Eclipse'')"

text \<open>The database summary script has its own classifier, with short labels.\<close>

definition extractEclipseType_summary :: "string \<Rightarrow> string \<Rightarrow> string" where
  "extractEclipseType_summary description eclipseCategory =
     (if eclipseCategory = ''solar'' then
        (if js_includes description ''   T   '' then ''Total''
         else if js_includes description ''   A   '' then ''Annular''
         else if js_includes description ''   P   '' then ''Partial''
         else if js_includes description ''   H   '' then ''Hybrid''
         else ''Unspecified'')
      else
        (if js_includes description ''   T-  '' \<or> js_includes description ''   T+  ''
           then ''Total''
         else if js_includes description ''   P   '' then ''Partial''
         else if js_includes description ''   N   '' then ''Penumbral''
         else ''Unspecified''))"

section \<open>Eclipse records, deduplication and merging\<close>

text \<open>
  An eclipse record of the dataset.  \<open>year\<close> is a JavaScript number: the Saros
  generator stores fractional years, so it is a rational here; \<open>month\<close> and \<open>day\<close>
  are integers in every producer.
\<close>

record EclipseRecord =
  ec_year :: rat
  ec_month :: int
  ec_day :: int
  ec_date :: string
  ec_type :: string
  ec_description :: string
  ec_source :: string

text \<open>\<open>Array.prototype.findIndex\<close>: the first index whose element satisfies the test, or -1.\<close>

fun findIndex :: "('a \<Rightarrow> bool) \<Rightarrow> 'a list \<Rightarrow> int" where
  "findIndex p [] = -1"
| "findIndex p (x # xs) =
     (if p x then 0 else (let i = findIndex p xs in if i < 0 then -1 else i + 1))"

text \<open>
  The idiom \<open>xs.filter((e, index, self) => index === self.findIndex(e' => same e' e))\<close>:
  an element stays when it stands at the first index holding an element the test
  relates to it.
\<close>

definition dedupeBy :: "('a \<Rightarrow> 'a \<Rightarrow> bool) \<Rightarrow> 'a list \<Rightarrow> 'a list" where
  "dedupeBy same self =
     map fst (filter (\<lambda>(e, index). int index = findIndex (\<lambda>e'. same e' e) self)
                (zip self [0 ..< length self]))"

definition yearMonth :: "EclipseRecord \<Rightarrow> rat \<times> int" where
  "yearMonth e = (ec_year e, ec_month e)"

definition sameYearMonth :: "EclipseRecord \<Rightarrow> EclipseRecord \<Rightarrow> bool" where
  "sameYearMonth e eclipse = (ec_year e = ec_year eclipse \<and> ec_month e = ec_month eclipse)"

text \<open>
  The merge step of \<open>fetchAllEclipseData\<close>: concatenate, keep first occurrences per
  (year, month), sort by year.  \<open>Array.prototype.sort\<close> is stable, as \<open>sort_key\<close> is.
  The step runs only when the catalogue list is not empty; otherwise the calculated
  list is taken as it is.
\<close>

definition mergeEclipses :: "EclipseRecord list \<Rightarrow> EclipseRecord list \<Rightarrow> EclipseRecord list" where
  "mergeEclipses fromNASA calculated =
     (let merged = fromNASA @ calculated
      in sort_key ec_year (dedupeBy sameYearMonth merged))"


text \<open>
  The specification's wording of deduplication, for comparison: walk the list and keep
  an element exactly when its key has not been seen before.
\<close>

fun keepFirst :: "('a \<Rightarrow> 'k) \<Rightarrow> 'k set \<Rightarrow> 'a list \<Rightarrow> 'a list" where
  "keepFirst key seen [] = []"
| "keepFirst key seen (x # xs) =
     (if key x \<in> seen then keepFirst key seen xs
      else x # keepFirst key (insert (key x) seen) xs)"

section \<open>Numbers as text\<close>

text \<open>
  \<open>Number.prototype.toString\<close> on an integer is its decimal numeral; \<open>padStart(2, '0')\<close>
  fills a shorter string with leading zeros.
\<close>

definition digitChar :: "nat \<Rightarrow> char" where
  "digitChar n = char_of (48 + n)"

fun showNat :: "nat \<Rightarrow> string" where
  "showNat n = (if n < 10 then [digitChar n] else showNat (n div 10) @ [digitChar (n mod 10)])"

definition showInt :: "int \<Rightarrow> string" where
  "showInt i = (if i < 0 then CHR ''-'' # showNat (nat (- i)) else showNat (nat i))"

definition padStart2 :: "string \<Rightarrow> string" where
  "padStart2 s = replicate (2 - length s) CHR ''0'' @ s"

section \<open>The Saros-cycle fallback generator\<close>

text \<open>
  \<open>calculateEclipses\<close> of the eclipse fetcher.  The cycle is the literal 18.03; the
  arithmetic on years is exact rational arithmetic here (the source computes in double
  precision).  How a fractional year prints in the \<open>date\<close> string is left to the
  parameter \<open>numberToString\<close>.  \<open>Math.round\<close> rounds half up.  The table of reference
  eclipses is read for the categories \<open>solar\<close> and \<open>lunar\<close>, which are the ones the
  fetcher passes; any other category has no references here (a name that the table
  inherits, such as \<open>toString\<close>, makes the source throw instead).
\<close>

definition sarosCycle :: rat where
  "sarosCycle = 1803 / 100"

definition js_round :: "rat \<Rightarrow> int" where
  "js_round x = \<lfloor>x + 1 / 2\<rfloor>"

definition referenceEclipses :: "string \<Rightarrow> (int \<times> int \<times> int) list" where
  "referenceEclipses eclipseType =
     (if eclipseType = ''solar'' then
        [(2024, 4, 8), (2023, 10, 14), (2021, 6, 10), (2020, 6, 21), (2017, 8, 21)]
      else if eclipseType = ''lunar'' then
        [(2024, 3, 25), (2023, 5, 5), (2022, 11, 8), (2022, 5, 16), (2021, 11, 19)]
      else [])"

definition calculatedRecord :: "string \<Rightarrow> rat \<Rightarrow> string \<Rightarrow> int \<Rightarrow> int \<Rightarrow> EclipseRecord" where
  "calculatedRecord eclipseType year yearText month day =
     \<lparr>ec_year = year, ec_month = month, ec_day = day,
      ec_date = yearText @ ''-'' @ padStart2 (showInt month) @ ''-'' @ padStart2 (showInt day),
      ec_type = eclipseType,
      ec_description = (if eclipseType = ''solar'' then ''Solar'' else ''Lunar'') @ '' Eclipse (calculated)'',
      ec_source = ''Saros Cycle Calculation''\<rparr>"

function goBackwards ::
  "(rat \<Rightarrow> string) \<Rightarrow> int \<Rightarrow> int \<Rightarrow> string \<Rightarrow> int \<times> int \<Rightarrow> rat \<Rightarrow> EclipseRecord list
     \<Rightarrow> EclipseRecord list" where
  "goBackwards numberToString startYear endYear eclipseType ref year eclipses =
     (if year \<ge> of_int startYear then
        goBackwards numberToString startYear endYear eclipseType ref (year - sarosCycle)
          (if year \<ge> of_int startYear \<and> year \<le> of_int endYear
           then eclipses @ [calculatedRecord eclipseType year (numberToString year) (fst ref) (snd ref)]
           else eclipses)
      else eclipses)"
  by pat_completeness auto
termination
proof (relation "measure (\<lambda>(n, s, e, t, r, year, acc). nat \<lfloor>year - of_int s + 19\<rfloor>)", goal_cases)
  case 1
  show ?case by simp
next
  case (2 n s e t r year acc)
  have "\<lfloor>year - 1803 / 100\<rfloor> < \<lfloor>year\<rfloor>"
    using floor_mono [of "year - 1803 / 100" "year - 1"] by simp
  moreover from 2 have "s \<le> \<lfloor>year\<rfloor>" by (simp add: le_floor_iff)
  ultimately show ?case by (simp add: sarosCycle_def)
qed

function goForwards ::
  "int \<Rightarrow> int \<Rightarrow> string \<Rightarrow> int \<times> int \<Rightarrow> rat \<Rightarrow> EclipseRecord list \<Rightarrow> EclipseRecord list" where
  "goForwards startYear endYear eclipseType ref year eclipses =
     (if year \<le> of_int endYear then
        goForwards startYear endYear eclipseType ref (year + sarosCycle)
          (if year \<ge> of_int startYear \<and> year \<le> of_int endYear
           then eclipses @ [calculatedRecord eclipseType (of_int (js_round year))
                              (showInt (js_round year)) (fst ref) (snd ref)]
           else eclipses)
      else eclipses)"
  by pat_completeness auto
termination
proof (relation "measure (\<lambda>(s, e, t, r, year, acc). nat \<lfloor>of_int e - year + 19\<rfloor>)", goal_cases)
  case 1
  show ?case by simp
next
  case (2 s e t r year acc)
  have "\<lfloor>of_int e - (year + 1803 / 100)\<rfloor> < \<lfloor>of_int e - year\<rfloor>"
    using floor_mono [of "of_int e - (year + 1803 / 100)" "of_int e - year - 1"] by simp
  moreover from 2 have "0 < \<lfloor>of_int e - year\<rfloor> + 19"
    using zero_le_floor [of "of_int e - year"] by linarith
  ultimately show ?case by (simp add: sarosCycle_def)
qed

definition sameYearMonthDay :: "EclipseRecord \<Rightarrow> EclipseRecord \<Rightarrow> bool" where
  "sameYearMonthDay e eclipse =
     (ec_year e = ec_year eclipse \<and> ec_month e = ec_month eclipse \<and> ec_day e = ec_day eclipse)"

definition yearMonthDay :: "EclipseRecord \<Rightarrow> rat \<times> int \<times> int" where
  "yearMonthDay e = (ec_year e, ec_month e, ec_day e)"

definition projectReference ::
  "(rat \<Rightarrow> string) \<Rightarrow> int \<Rightarrow> int \<Rightarrow> string \<Rightarrow> EclipseRecord list \<Rightarrow> int \<times> int \<times> int
     \<Rightarrow> EclipseRecord list" where
  "projectReference numberToString startYear endYear eclipseType eclipses ref =
     (case ref of (refYear, refMonth, refDay) \<Rightarrow>
        goForwards startYear endYear eclipseType (refMonth, refDay) (of_int refYear + sarosCycle)
          (goBackwards numberToString startYear endYear eclipseType (refMonth, refDay)
             (of_int refYear) eclipses))"

definition calculateEclipses :: "(rat \<Rightarrow> string) \<Rightarrow> int \<Rightarrow> int \<Rightarrow> string \<Rightarrow> EclipseRecord list" where
  "calculateEclipses numberToString startYear endYear eclipseType =
     (let eclipses = foldl (projectReference numberToString startYear endYear eclipseType) []
                       (referenceEclipses eclipseType);
          uniqueEclipses = dedupeBy sameYearMonthDay eclipses
      in sort_key ec_year uniqueEclipses)"

section \<open>Character classes, trimming, lines and \<open>parseInt\<close>\<close>

text \<open>
  The regular-expression classes \<open>\d\<close>, \<open>\w\<close> and \<open>\s\<close> on code units below 256, and
  the string functions the parsers use.
\<close>

definition isDigit :: "char \<Rightarrow> bool" where
  "isDigit c = (48 \<le> (of_char c :: nat) \<and> (of_char c :: nat) \<le> 57)"

definition isWordChar :: "char \<Rightarrow> bool" where
  "isWordChar c =
     (isDigit c \<or> (65 \<le> (of_char c :: nat) \<and> (of_char c :: nat) \<le> 90)
      \<or> (97 \<le> (of_char c :: nat) \<and> (of_char c :: nat) \<le> 122) \<or> (of_char c :: nat) = 95)"

definition isWhiteSpace :: "char \<Rightarrow> bool" where
  "isWhiteSpace c = ((of_char c :: nat) \<in> {9, 10, 11, 12, 13, 32, 160})"

definition trim :: "string \<Rightarrow> string" where
  "trim s = rev (dropWhile isWhiteSpace (rev (dropWhile isWhiteSpace s)))"

definition toLowerCase_char :: "char \<Rightarrow> char" where
  "toLowerCase_char c =
     (if 65 \<le> (of_char c :: nat) \<and> (of_char c :: nat) \<le> 90
      then char_of ((of_char c :: nat) + 32) else c)"

text \<open>\<open>data.split('\n')\<close>: the pieces between line feeds; never an empty list.\<close>

fun splitOn :: "char \<Rightarrow> string \<Rightarrow> string list" where
  "splitOn sep [] = [[]]"
| "splitOn sep (c # cs) =
     (if c = sep then [] # splitOn sep cs
      else (case splitOn sep cs of [] \<Rightarrow> [[c]] | l # ls \<Rightarrow> (c # l) # ls))"

definition digitValue :: "char \<Rightarrow> int" where
  "digitValue c =
     (if isDigit c then int (of_char c) - 48
      else if 97 \<le> (of_char c :: nat) \<and> (of_char c :: nat) \<le> 102 then int (of_char c) - 87
      else int (of_char c) - 55)"

definition isHexDigit :: "char \<Rightarrow> bool" where
  "isHexDigit c =
     (isDigit c \<or> (65 \<le> (of_char c :: nat) \<and> (of_char c :: nat) \<le> 70)
      \<or> (97 \<le> (of_char c :: nat) \<and> (of_char c :: nat) \<le> 102))"

definition digitsValue :: "int \<Rightarrow> string \<Rightarrow> int" where
  "digitsValue radix ds = foldl (\<lambda>v c. radix * v + digitValue c) 0 ds"

text \<open>
  \<open>parseInt\<close> with no radix: leading white space and a sign are skipped, a \<open>0x\<close> prefix
  selects base 16, the longest run of digits is read, and no digit at all gives
  \<open>NaN\<close> (\<open>None\<close>).
\<close>

definition js_parseInt :: "string \<Rightarrow> int option" where
  "js_parseInt s =
     (let s1 = dropWhile isWhiteSpace s;
          negative = (take 1 s1 = ''-'');
          s2 = (if take 1 s1 = ''-'' \<or> take 1 s1 = ''+'' then drop 1 s1 else s1);
          hex = (take 2 s2 = ''0x'' \<or> take 2 s2 = ''0X'');
          s3 = (if hex then drop 2 s2 else s2);
          ds = takeWhile (if hex then isHexDigit else isDigit) s3;
          v = digitsValue (if hex then 16 else 10) ds
      in if ds = [] then None else Some (if negative then - v else v))"

section \<open>The NASA catalogue parser\<close>

text \<open>
  \<open>line.match(pattern)\<close> finds the leftmost match.  Each of the three patterns is matched
  at a position by a function of its own; in all three the classes that meet are
  disjoint, so the greedy match at a position is the only one.
\<close>

fun regexSearch :: "(string \<Rightarrow> 'a option) \<Rightarrow> string \<Rightarrow> 'a option" where
  "regexSearch matchAt [] = matchAt []"
| "regexSearch matchAt (c # cs) =
     (case matchAt (c # cs) of Some groups \<Rightarrow> Some groups | None \<Rightarrow> regexSearch matchAt cs)"

text \<open>The group \<open>(\d{1,2})\<close>: two digits when there are two, else one.\<close>

definition oneOrTwoDigits :: "string \<Rightarrow> string option" where
  "oneOrTwoDigits s =
     (case s of
        [] \<Rightarrow> None
      | a # r \<Rightarrow>
          if \<not> isDigit a then None
          else (case r of [] \<Rightarrow> Some [a] | b # _ \<Rightarrow> if isDigit b then Some [a, b] else Some [a]))"

text \<open>\<open>/(\d{4})\s+(\w{3})\s+(\d{1,2})/\<close>, as in "2024 Mar 25": groups year, month name, day.\<close>

definition matchMonthNameAt :: "string \<Rightarrow> (string \<times> string \<times> string) option" where
  "matchMonthNameAt s =
     (let y = take 4 s; r1 = drop 4 s;
          r2 = dropWhile isWhiteSpace r1;
          m = take 3 r2; r3 = drop 3 r2;
          r4 = dropWhile isWhiteSpace r3
      in if length y = 4 \<and> list_all isDigit y \<and> r2 \<noteq> r1
            \<and> length m = 3 \<and> list_all isWordChar m \<and> r4 \<noteq> r3
         then (case oneOrTwoDigits r4 of None \<Rightarrow> None | Some d \<Rightarrow> Some (y, m, d))
         else None)"

text \<open>\<open>/(\d{4})-(\d{2})-(\d{2})/\<close>, as in "2024-03-25": groups year, month, day.\<close>

definition matchISOAt :: "string \<Rightarrow> (string \<times> string \<times> string) option" where
  "matchISOAt s =
     (let y = take 4 s; m = take 2 (drop 5 s); d = take 2 (drop 8 s)
      in if length y = 4 \<and> list_all isDigit y \<and> take 1 (drop 4 s) = ''-''
            \<and> length m = 2 \<and> list_all isDigit m \<and> take 1 (drop 7 s) = ''-''
            \<and> length d = 2 \<and> list_all isDigit d
         then Some (y, m, d) else None)"

text \<open>\<open>/(\d{1,2})\/(\d{1,2})\/(\d{4})/\<close>, as in "3/25/2024": groups month, day, year.\<close>

definition matchUSAt :: "string \<Rightarrow> (string \<times> string \<times> string) option" where
  "matchUSAt s =
     (case oneOrTwoDigits s of
        None \<Rightarrow> None
      | Some m \<Rightarrow>
          let r1 = drop (length m) s in
          if take 1 r1 \<noteq> ''/'' then None
          else (case oneOrTwoDigits (drop 1 r1) of
                  None \<Rightarrow> None
                | Some d \<Rightarrow>
                    let r2 = drop (length d) (drop 1 r1); y = take 4 (drop 1 r2) in
                    if take 1 r2 = ''/'' \<and> length y = 4 \<and> list_all isDigit y
                    then Some (m, d, y) else None))"

definition monthMap :: "string \<Rightarrow> int option" where
  "monthMap name =
     (if name = ''Jan'' then Some 1 else if name = ''Feb'' then Some 2
      else if name = ''Mar'' then Some 3 else if name = ''Apr'' then Some 4
      else if name = ''May'' then Some 5 else if name = ''Jun'' then Some 6
      else if name = ''Jul'' then Some 7 else if name = ''Aug'' then Some 8
      else if name = ''Sep'' then Some 9 else if name = ''Oct'' then Some 10
      else if name = ''Nov'' then Some 11 else if name = ''Dec'' then Some 12
      else None)"

text \<open>
  The guard \<open>year && month && day && year >= 1960 && year <= 2100\<close> and the record it
  admits; \<open>None\<close> stands for \<open>NaN\<close> or \<open>undefined\<close>, which are falsy like 0.
\<close>

definition catalogueRecord ::
  "string \<Rightarrow> string \<Rightarrow> int option \<Rightarrow> int option \<Rightarrow> int option \<Rightarrow> EclipseRecord option" where
  "catalogueRecord eclipseType line year month day =
     (case (year, month, day) of
        (Some y, Some m, Some d) \<Rightarrow>
          if y \<noteq> 0 \<and> m \<noteq> 0 \<and> d \<noteq> 0 \<and> y \<ge> 1960 \<and> y \<le> 2100
          then Some \<lparr>ec_year = of_int y, ec_month = m, ec_day = d,
                      ec_date = showInt y @ ''-'' @ padStart2 (showInt m) @ ''-'' @ padStart2 (showInt d),
                      ec_type = eclipseType, ec_description = trim line,
                      ec_source = ''NASA Eclipse Catalog''\<rparr>
          else None
      | _ \<Rightarrow> None)"

text \<open>One line: the first pattern that matches anywhere in the line decides, and no other is tried.\<close>

definition parseNASALine :: "string \<Rightarrow> string \<Rightarrow> EclipseRecord option" where
  "parseNASALine eclipseType line =
     (case regexSearch matchMonthNameAt line of
        Some (y, m, d) \<Rightarrow>
          catalogueRecord eclipseType line (js_parseInt y) (monthMap m) (js_parseInt d)
      | None \<Rightarrow>
          (case regexSearch matchISOAt line of
             Some (y, m, d) \<Rightarrow>
               catalogueRecord eclipseType line (js_parseInt y) (js_parseInt m) (js_parseInt d)
           | None \<Rightarrow>
               (case regexSearch matchUSAt line of
                  Some (m, d, y) \<Rightarrow>
                    catalogueRecord eclipseType line (js_parseInt y) (js_parseInt m) (js_parseInt d)
                | None \<Rightarrow> None)))"

definition parseNASAEclipseData :: "string \<Rightarrow> string \<Rightarrow> EclipseRecord list" where
  "parseNASAEclipseData data eclipseType =
     foldl (\<lambda>eclipses line.
              case parseNASALine eclipseType line of
                None \<Rightarrow> eclipses
              | Some eclipse \<Rightarrow> eclipses @ [eclipse])
       [] (splitOn (CHR 0x0A) data)"

section \<open>JSON values, errors and HTTP\<close>

text \<open>
  A parsed JSON value.  \<open>truthy\<close> is JavaScript's \<open>ToBoolean\<close>; \<open>getProp\<close> reads a
  property that is no built-in of strings and arrays (such as \<open>phasedata\<close>), with \<open>None\<close>
  for \<open>undefined\<close>; \<open>js_length\<close> reads \<open>.length\<close>.
\<close>

datatype json =
    JNull
  | JBool bool
  | JNum rat
  | JStr string
  | JArr "json list"
  | JObj "(string \<times> json) list"

fun truthy :: "json \<Rightarrow> bool" where
  "truthy JNull = False"
| "truthy (JBool b) = b"
| "truthy (JNum n) = (n \<noteq> 0)"
| "truthy (JStr s) = (s \<noteq> [])"
| "truthy (JArr xs) = True"
| "truthy (JObj kvs) = True"

fun getProp :: "json \<Rightarrow> string \<Rightarrow> json option" where
  "getProp (JObj kvs) k = map_of kvs k"
| "getProp v k = None"

fun js_length :: "json \<Rightarrow> json option" where
  "js_length (JArr xs) = Some (JNum (of_nat (length xs)))"
| "js_length (JStr s) = Some (JNum (of_nat (length s)))"
| "js_length (JObj kvs) = map_of kvs ''length''"
| "js_length v = None"

text \<open>
  An exception is an \<open>Error\<close> object, of which only the message is read.  A computation
  that may throw, or a promise that may reject, returns \<open>Inl\<close> of the error.
\<close>

datatype js_error = Error (message: string)

definition try_catch :: "js_error + 'a \<Rightarrow> (js_error \<Rightarrow> js_error + 'a) \<Rightarrow> js_error + 'a" where
  "try_catch body handler = (case body of Inl error \<Rightarrow> handler error | Inr v \<Rightarrow> Inr v)"

text \<open>
  What one outbound GET does: a response with status and body, a connection error, or
  a timeout.  \<open>makeRequest\<close> (and \<open>makeProxyRequest\<close>, the same code) resolves with the body
  on status 200 and rejects otherwise.
\<close>

datatype http_outcome =
    Response int string
  | ConnectionError string
  | Timeout

definition makeRequest :: "(string \<Rightarrow> http_outcome) \<Rightarrow> string \<Rightarrow> js_error + string" where
  "makeRequest http targetUrl =
     (case http targetUrl of
        Response statusCode data \<Rightarrow>
          if statusCode = 200 then Inr data
          else Inl (Error (''HTTP '' @ showInt statusCode @ '': '' @ data))
      | ConnectionError msg \<Rightarrow> Inl (Error msg)
      | Timeout \<Rightarrow> Inl (Error ''Request timeout''))"

section \<open>Per-year moon-phase fetch and the sequential run\<close>

text \<open>
  The result of one year.  The type of \<open>phases\<close> is a parameter: raw JSON where the
  record is fetched, typed phase records where the matcher reads it.  \<open>count\<close> and
  \<open>error\<close> are absent (\<open>None\<close>) in the branches that do not set them.
\<close>

record 'p YearRecord =
  yr_year :: int
  yr_success :: bool
  yr_phases :: 'p
  yr_count :: "json option"
  yr_error :: "string option"

definition moonPhasesUrl :: "int \<Rightarrow> string" where
  "moonPhasesUrl year = ''https://aa.usno.navy.mil/api/moon/phases/year?year='' @ showInt year"

text \<open>
  \<open>fetchMoonPhasesYear\<close>: the request and \<open>JSON.parse\<close> (a parameter) run inside \<open>try\<close>; the
  handler turns the error into a failure record.
\<close>

definition fetchMoonPhasesYear ::
  "(string \<Rightarrow> http_outcome) \<Rightarrow> (string \<Rightarrow> js_error + json) \<Rightarrow> int \<Rightarrow> js_error + json YearRecord" where
  "fetchMoonPhasesYear http JSON_parse year =
     try_catch
       (case makeRequest http (moonPhasesUrl year) of
          Inl error \<Rightarrow> Inl error
        | Inr response \<Rightarrow>
            (case JSON_parse response of
               Inl error \<Rightarrow> Inl error
             | Inr data \<Rightarrow>
                 (case (if truthy data then getProp data ''phasedata'' else None) of
                    Some phasedata \<Rightarrow>
                      if truthy phasedata
                      then Inr \<lparr>yr_year = year, yr_success = True, yr_phases = phasedata,
                                 yr_count = js_length phasedata, yr_error = None\<rparr>
                      else Inr \<lparr>yr_year = year, yr_success = False, yr_phases = JArr [],
                                 yr_count = None, yr_error = Some ''No phase data in response''\<rparr>
                  | None \<Rightarrow>
                      Inr \<lparr>yr_year = year, yr_success = False, yr_phases = JArr [],
                            yr_count = None, yr_error = Some ''No phase data in response''\<rparr>)))
       (\<lambda>error. Inr \<lparr>yr_year = year, yr_success = False, yr_phases = JArr [],
                      yr_count = None, yr_error = Some (message error)\<rparr>)"

text \<open>
  The loop of \<open>fetchAllMoonData\<close> and its state: the map of results and the three
  counters (the statistics and the final file written after the loop are left out).  Each
  iteration runs in a \<open>try\<close> whose handler counts a failure; the assignments made before
  a throw stay.  Writing the progress file (every tenth processed year) is the only
  statement of the body that can throw once the fetch has returned; \<open>writeFileSync\<close> says
  whether the file of that name could be written.
\<close>

record MoonRun =
  run_moonPhases :: "int \<rightharpoonup> json YearRecord"
  run_processed :: nat
  run_successful :: nat
  run_failed :: nat

definition moonYearStep ::
  "(string \<Rightarrow> http_outcome) \<Rightarrow> (string \<Rightarrow> js_error + json) \<Rightarrow> (string \<Rightarrow> bool)
     \<Rightarrow> MoonRun \<Rightarrow> int \<Rightarrow> MoonRun" where
  "moonYearStep http JSON_parse writeFileSync st year =
     (case fetchMoonPhasesYear http JSON_parse year of
        Inl error \<Rightarrow> st\<lparr>run_failed := run_failed st + 1\<rparr>
      | Inr result \<Rightarrow>
          let st1 = st\<lparr>run_moonPhases := (run_moonPhases st)(year \<mapsto> result)\<rparr>;
              st2 = (if yr_success result
                     then st1\<lparr>run_successful := run_successful st1 + 1\<rparr>
                     else st1\<lparr>run_failed := run_failed st1 + 1\<rparr>);
              st3 = st2\<lparr>run_processed := run_processed st2 + 1\<rparr>
          in if run_processed st3 mod 10 = 0
                \<and> \<not> writeFileSync (''moon-data-progress-'' @ showNat (run_processed st3) @ ''.json'')
             then st3\<lparr>run_failed := run_failed st3 + 1\<rparr>
             else st3)"

definition fetchAllMoonData ::
  "(string \<Rightarrow> http_outcome) \<Rightarrow> (string \<Rightarrow> js_error + json) \<Rightarrow> (string \<Rightarrow> bool) \<Rightarrow> MoonRun" where
  "fetchAllMoonData http JSON_parse writeFileSync =
     (let startYear = 1960; endYear = 2100; years = [startYear .. endYear]
      in foldl (moonYearStep http JSON_parse writeFileSync)
           \<lparr>run_moonPhases = Map.empty, run_processed = 0, run_successful = 0, run_failed = 0\<rparr>
           years)"

section \<open>The batch orchestrator\<close>

text \<open>
  \<open>fetchMoonPhasesForYear\<close> of the comprehensive fetcher: \<open>data.phasedata || []\<close>, where
  reading a property of \<open>null\<close> throws a \<open>TypeError\<close> that the handler catches.
\<close>

record MoonResult =
  mres_year :: int
  mres_data :: json
  mres_error :: "string option"

definition fetchMoonPhasesForYear ::
  "(string \<Rightarrow> http_outcome) \<Rightarrow> (string \<Rightarrow> js_error + json) \<Rightarrow> int \<Rightarrow> MoonResult" where
  "fetchMoonPhasesForYear http JSON_parse year =
     (case (case makeRequest http (moonPhasesUrl year) of
              Inl error \<Rightarrow> Inl error
            | Inr response \<Rightarrow>
                (case JSON_parse response of
                   Inl error \<Rightarrow> Inl error
                 | Inr data \<Rightarrow>
                     if data = JNull
                     then Inl (Error ''Cannot read properties of null (reading phasedata)'')
                     else Inr (case getProp data ''phasedata'' of
                                 Some phasedata \<Rightarrow> if truthy phasedata then phasedata else JArr []
                               | None \<Rightarrow> JArr []))) of
        Inr phasedata \<Rightarrow> \<lparr>mres_year = year, mres_data = phasedata, mres_error = None\<rparr>
      | Inl error \<Rightarrow> \<lparr>mres_year = year, mres_data = JArr [], mres_error = Some (message error)\<rparr>)"

text \<open>
  \<open>parseEclipseData\<close> and \<open>fetchEclipsesForYear\<close>: a line with an ISO date gives an entry;
  each request has its own \<open>catch\<close> that yields \<open>null\<close>, so the outer handler is never
  entered and the result carries no error.
\<close>

record YearEclipse =
  ye_date :: string
  ye_type :: string
  ye_description :: string

definition matchISODateAt :: "string \<Rightarrow> string option" where
  "matchISODateAt s = (case matchISOAt s of None \<Rightarrow> None | Some (y, m, d) \<Rightarrow> Some (take 10 s))"

definition parseEclipseData :: "string \<Rightarrow> YearEclipse list" where
  "parseEclipseData response =
     foldl (\<lambda>eclipses line.
              case regexSearch matchISODateAt line of
                None \<Rightarrow> eclipses
              | Some dateMatch \<Rightarrow>
                  eclipses @ [\<lparr>ye_date = dateMatch,
                                 ye_type = (if js_includes (map toLowerCase_char line) ''solar''
                                            then ''solar'' else ''lunar''),
                                 ye_description = trim line\<rparr>])
       [] (splitOn (CHR 0x0A) response)"

record EclipsesResult =
  eres_year :: int
  eres_solar :: "YearEclipse list"
  eres_lunar :: "YearEclipse list"
  eres_error :: "string option"

definition fetchEclipsesForYear :: "(string \<Rightarrow> http_outcome) \<Rightarrow> int \<Rightarrow> EclipsesResult" where
  "fetchEclipsesForYear http year =
     (let solarUrl = ''https://api.imcce.fr/webservices/miriade/ephemeris_solar_eclipse.php?year=''
                       @ showInt year;
          lunarUrl = ''https://api.imcce.fr/webservices/miriade/ephemeris_lunar_eclipse.php?year=''
                       @ showInt year;
          parsed = (\<lambda>response. case response of
                        Inl err \<Rightarrow> []
                      | Inr text \<Rightarrow> if text = [] then [] else parseEclipseData text)
      in \<lparr>eres_year = year,
          eres_solar = parsed (makeRequest http solarUrl),
          eres_lunar = parsed (makeRequest http lunarUrl),
          eres_error = None\<rparr>)"

text \<open>
  The accumulator of \<open>fetchAllAstronomicalData\<close>, with the years whose fetches were
  issued, in order.  A result counts as an error when its \<open>error\<close> is truthy: present and
  not the empty string.
\<close>

record AllData =
  all_moonPhases :: "int \<rightharpoonup> MoonResult"
  all_eclipses :: "int \<rightharpoonup> EclipsesResult"
  all_successCount :: nat
  all_errorCount :: nat
  all_fetchedYears :: "int list"

definition errorTruthy :: "string option \<Rightarrow> bool" where
  "errorTruthy e = (case e of None \<Rightarrow> False | Some msg \<Rightarrow> msg \<noteq> [])"

definition processBatch ::
  "(string \<Rightarrow> http_outcome) \<Rightarrow> (string \<Rightarrow> js_error + json) \<Rightarrow> AllData \<Rightarrow> int list \<Rightarrow> AllData" where
  "processBatch http JSON_parse allData batchYears =
     (let moonResults = map (fetchMoonPhasesForYear http JSON_parse) batchYears;
          eclipseResults = map (fetchEclipsesForYear http) batchYears;
          errors = length (filter (\<lambda>r. errorTruthy (mres_error r)) moonResults)
                   + length (filter (\<lambda>r. errorTruthy (eres_error r)) eclipseResults);
          successes = length (filter (\<lambda>r. \<not> errorTruthy (mres_error r)) moonResults)
                      + length (filter (\<lambda>r. \<not> errorTruthy (eres_error r)) eclipseResults)
      in allData\<lparr>
           all_moonPhases :=
             foldl (\<lambda>m result. m(mres_year result \<mapsto> result)) (all_moonPhases allData) moonResults,
           all_eclipses :=
             foldl (\<lambda>m result. m(eres_year result \<mapsto> result)) (all_eclipses allData) eclipseResults,
           all_successCount := all_successCount allData + successes,
           all_errorCount := all_errorCount allData + errors,
           all_fetchedYears := all_fetchedYears allData @ batchYears\<rparr>)"

text \<open>
  The batching loop \<open>for (let i = startYear; i <= endYear; i += batchSize)\<close>; the batch
  size is a parameter (5 in the source).  With a batch size below 1 the loop does not
  end, so the loop is a partial function.  Writing the progress file after a batch can
  throw; the handler of the batch only logs, and the results are stored before.
\<close>

partial_function (option) batchLoop ::
  "(string \<Rightarrow> http_outcome) \<Rightarrow> (string \<Rightarrow> js_error + json) \<Rightarrow> int \<Rightarrow> int \<Rightarrow> int \<Rightarrow> AllData
     \<Rightarrow> AllData option" where
  "batchLoop http JSON_parse batchSize endYear i allData =
     (if i \<le> endYear then
        (let batchEnd = min (i + batchSize - 1) endYear;
             batchYears = [i .. batchEnd]
         in batchLoop http JSON_parse batchSize endYear (i + batchSize)
              (processBatch http JSON_parse allData batchYears))
      else Some allData)"

definition orchestrate ::
  "(string \<Rightarrow> http_outcome) \<Rightarrow> (string \<Rightarrow> js_error + json) \<Rightarrow> int \<Rightarrow> int \<Rightarrow> int \<Rightarrow> AllData option" where
  "orchestrate http JSON_parse startYear endYear batchSize =
     batchLoop http JSON_parse batchSize endYear startYear
       \<lparr>all_moonPhases = Map.empty, all_eclipses = Map.empty,
        all_successCount = 0, all_errorCount = 0, all_fetchedYears = []\<rparr>"

definition fetchAllAstronomicalData ::
  "(string \<Rightarrow> http_outcome) \<Rightarrow> (string \<Rightarrow> js_error + json) \<Rightarrow> AllData option" where
  "fetchAllAstronomicalData http JSON_parse = orchestrate http JSON_parse 1960 2100 5"

section \<open>Calendar dates as a \<open>Date\<close> object reads them\<close>

text \<open>
  A \<open>Date\<close> is represented by what the matcher reads from it: \<open>getFullYear()\<close>,
  \<open>getMonth() + 1\<close> and \<open>getDate()\<close>, all in local time; \<open>None\<close> is an invalid date, whose
  getters return \<open>NaN\<close>.
\<close>

type_synonym ymd = "int \<times> int \<times> int"

definition isLeapYear :: "int \<Rightarrow> bool" where
  "isLeapYear y = (y mod 4 = 0 \<and> (y mod 100 \<noteq> 0 \<or> y mod 400 = 0))"

definition daysInMonth :: "int \<Rightarrow> int \<Rightarrow> int" where
  "daysInMonth y m =
     (if m = 2 then (if isLeapYear y then 29 else 28)
      else if m = 4 \<or> m = 6 \<or> m = 9 \<or> m = 11 then 30 else 31)"

definition validDate :: "ymd \<Rightarrow> bool" where
  "validDate date =
     (case date of (y, m, d) \<Rightarrow> 1 \<le> m \<and> m \<le> 12 \<and> 1 \<le> d \<and> d \<le> daysInMonth y m)"

definition previousDay :: "ymd \<Rightarrow> ymd" where
  "previousDay date =
     (case date of (y, m, d) \<Rightarrow>
        if d > 1 then (y, m, d - 1)
        else if m > 1 then (y, m - 1, daysInMonth y (m - 1))
        else (y - 1, 12, 31))"

text \<open>
  \<open>new Date(year, monthIndex, day)\<close> takes its arguments as local time.  A day outside
  the month carries into the neighbouring months, and a year from 0 to 99 means 1900
  plus that year.  (The limits of the representable time range are not modelled.)
\<close>

function normaliseDay :: "int \<Rightarrow> int \<Rightarrow> int \<Rightarrow> ymd" where
  "normaliseDay y m d =
     (if d < 1 then
        normaliseDay (if m = 1 then y - 1 else y) (if m = 1 then 12 else m - 1)
          (d + daysInMonth (if m = 1 then y - 1 else y) (if m = 1 then 12 else m - 1))
      else if d > daysInMonth y m then
        normaliseDay (if m = 12 then y + 1 else y) (if m = 12 then 1 else m + 1)
          (d - daysInMonth y m)
      else (y, m, d))"
  by pat_completeness auto
termination
  by (relation "measure (\<lambda>(y, m, d). nat (if d < 1 then 33 - d else d))")
     (auto simp: daysInMonth_def)

definition localDate :: "int \<Rightarrow> int \<Rightarrow> int \<Rightarrow> ymd" where
  "localDate year monthIndex day =
     normaliseDay (if 0 \<le> year \<and> year \<le> 99 then 1900 + year else year) (monthIndex + 1) day"

text \<open>
  \<open>new Date(birthDate)\<close> for the text the date input produces, "YYYY-MM-DD", as V8
  (Chrome, Node) reads it.  A date-only ISO text denotes midnight UTC.  A month from 1 to
  12 and a day from 1 to 31 are accepted, and a day past the end of its month carries
  into the next month ("1999-02-30" is 2 March); any other text gives an invalid \<open>Date\<close>
  here.  The getters read local time: with the host's offset from UTC \<open>tzOffset\<close> (minutes
  east, less than a day either way) midnight UTC is still the day before when the offset
  is negative.
\<close>

definition parseISODate :: "string \<Rightarrow> ymd option" where
  "parseISODate s =
     (if length s \<noteq> 10 then None
      else (case matchISOAt s of
              None \<Rightarrow> None
            | Some (y, m, d) \<Rightarrow>
                let year = digitsValue 10 y; month = digitsValue 10 m; day = digitsValue 10 d
                in if 1 \<le> month \<and> month \<le> 12 \<and> 1 \<le> day \<and> day \<le> 31
                   then Some (normaliseDay year month day) else None))"

definition newDateLocal :: "int \<Rightarrow> string \<Rightarrow> ymd option" where
  "newDateLocal tzOffset birthDate =
     (case parseISODate birthDate of
        None \<Rightarrow> None
      | Some date \<Rightarrow> Some (if tzOffset < 0 then previousDay date else date))"

section \<open>The birthday matcher on the pre-fetched dataset\<close>

record PhaseRecord =
  ph_year :: int
  ph_month :: int
  ph_day :: int
  ph_phase :: string
  ph_time :: string

text \<open>
  \<open>parseJSONPhaseDate\<close>: a zero field is falsy; on integers \<open>parseInt\<close> is the identity and
  \<open>isNaN\<close> never holds.
\<close>

definition parseJSONPhaseDate :: "PhaseRecord \<Rightarrow> ymd option" where
  "parseJSONPhaseDate phaseObj =
     (if ph_year phaseObj = 0 \<or> ph_month phaseObj = 0 \<or> ph_day phaseObj = 0 then None
      else (let year = ph_year phaseObj; month = ph_month phaseObj - 1; day = ph_day phaseObj
            in if month < 0 \<or> month > 11 then None else Some (localDate year month day)))"

record MoonYears =
  fullMoonYears :: "int list"
  newMoonYears :: "int list"
  firstQuarterYears :: "int list"
  lastQuarterYears :: "int list"

text \<open>The \<open>switch\<close> on the phase name; \<open>push\<close> appends.\<close>

definition pushYear :: "string \<Rightarrow> int \<Rightarrow> MoonYears \<Rightarrow> MoonYears" where
  "pushYear phaseName yearNum acc =
     (if phaseName = ''Full Moon''
        then acc\<lparr>fullMoonYears := fullMoonYears acc @ [yearNum]\<rparr>
      else if phaseName = ''New Moon''
        then acc\<lparr>newMoonYears := newMoonYears acc @ [yearNum]\<rparr>
      else if phaseName = ''First Quarter''
        then acc\<lparr>firstQuarterYears := firstQuarterYears acc @ [yearNum]\<rparr>
      else if phaseName = ''Last Quarter'' \<or> phaseName = ''Third Quarter''
        then acc\<lparr>lastQuarterYears := lastQuarterYears acc @ [yearNum]\<rparr>
      else acc)"

definition phaseStep :: "int \<Rightarrow> int \<Rightarrow> int \<Rightarrow> MoonYears \<Rightarrow> PhaseRecord \<Rightarrow> MoonYears" where
  "phaseStep birthMonth birthDay yearNum acc phase =
     (case parseJSONPhaseDate phase of
        None \<Rightarrow> acc
      | Some (phaseYear, phaseMonth, phaseDay) \<Rightarrow>
          if phaseMonth = birthMonth \<and> phaseDay = birthDay
          then pushYear (ph_phase phase) yearNum acc else acc)"

text \<open>
  One entry of \<open>Object.entries(moonPhaseData.moonPhases)\<close>: the key, read by \<open>parseInt\<close>, and
  the year's record.  The phases of a record are a list, which is always truthy.
\<close>

definition yearStep ::
  "int \<Rightarrow> int \<Rightarrow> int \<Rightarrow> MoonYears \<Rightarrow> int \<times> PhaseRecord list YearRecord \<Rightarrow> MoonYears" where
  "yearStep birthYear birthMonth birthDay acc entry =
     (case entry of (yearNum, yearData) \<Rightarrow>
        if \<not> yr_success yearData then acc
        else if yearNum < birthYear then acc
        else foldl (phaseStep birthMonth birthDay yearNum) acc (yr_phases yearData))"

record EclipseMatch =
  em_year :: rat
  em_type :: string
  em_category :: string
  em_description :: string
  em_date :: string
  em_rawDescription :: string

record EclipseData =
  solarEclipses :: "EclipseRecord list"
  lunarEclipses :: "EclipseRecord list"

definition eclipseMatch :: "string \<Rightarrow> string \<Rightarrow> EclipseRecord \<Rightarrow> EclipseMatch" where
  "eclipseMatch eclipseCategory category eclipse =
     (let eclipseType = extractEclipseType (ec_description eclipse) eclipseCategory
      in \<lparr>em_year = ec_year eclipse, em_type = eclipseType, em_category = category,
           em_description = eclipseType @ '' on your birthday'',
           em_date = ec_date eclipse, em_rawDescription = ec_description eclipse\<rparr>)"

definition pushMatching ::
  "int \<Rightarrow> int \<Rightarrow> int \<Rightarrow> string \<Rightarrow> string \<Rightarrow> EclipseMatch list \<Rightarrow> EclipseRecord \<Rightarrow> EclipseMatch list" where
  "pushMatching filterYear birthMonth birthDay eclipseCategory category matchingEclipses eclipse =
     (if ec_year eclipse \<ge> of_int filterYear \<and> ec_month eclipse = birthMonth
         \<and> ec_day eclipse = birthDay
      then matchingEclipses @ [eclipseMatch eclipseCategory category eclipse]
      else matchingEclipses)"

text \<open>
  \<open>processEclipseData\<close>, on a dataset that holds both lists (an absent list is skipped,
  as an empty one is).  \<open>birthYear || birth.getFullYear()\<close> takes the year of the date
  when the argument is absent or 0.  With an invalid birth date every comparison with
  \<open>NaN\<close> is false and nothing matches.
\<close>

definition processEclipseData :: "int \<Rightarrow> EclipseData \<Rightarrow> string \<Rightarrow> int option \<Rightarrow> EclipseMatch list" where
  "processEclipseData tzOffset eclipseData birthDate birthYear =
     (case newDateLocal tzOffset birthDate of
        None \<Rightarrow> []
      | Some (fullYear, birthMonth, birthDay) \<Rightarrow>
          let filterYear = (case birthYear of
                              None \<Rightarrow> fullYear
                            | Some y \<Rightarrow> if y \<noteq> 0 then y else fullYear);
              solarMatches =
                foldl (pushMatching filterYear birthMonth birthDay ''solar'' ''Solar'') []
                  (solarEclipses eclipseData);
              matchingEclipses =
                foldl (pushMatching filterYear birthMonth birthDay ''lunar'' ''Lunar'') solarMatches
                  (lunarEclipses eclipseData)
          in sort_key em_year matchingEclipses)"

record CosmicResults =
  fullMoon :: "int list"
  newMoon :: "int list"
  firstQuarter :: "int list"
  lastQuarter :: "int list"
  eclipses :: "EclipseMatch list"

text \<open>
  \<open>processJSONAstronomicalData\<close>, with the imported moon data (absent: the function
  throws), the imported eclipse data and the host's offset from UTC.
\<close>

definition processJSONAstronomicalData ::
  "int \<Rightarrow> (int \<times> PhaseRecord list YearRecord) list option \<Rightarrow> EclipseData \<Rightarrow> string
     \<Rightarrow> js_error + CosmicResults" where
  "processJSONAstronomicalData tzOffset moonPhaseData eclipseData birthDate =
     (case moonPhaseData of
        None \<Rightarrow> Inl (Error ''Moon phase data not available'')
      | Some moonPhases \<Rightarrow>
          (case newDateLocal tzOffset birthDate of
             None \<Rightarrow>
               Inr \<lparr>fullMoon = [], newMoon = [], firstQuarter = [], lastQuarter = [],
                     eclipses = processEclipseData tzOffset eclipseData birthDate None\<rparr>
           | Some (birthYear, birthMonth, birthDay) \<Rightarrow>
               let found = foldl (yearStep birthYear birthMonth birthDay)
                             \<lparr>fullMoonYears = [], newMoonYears = [],
                              firstQuarterYears = [], lastQuarterYears = []\<rparr> moonPhases
               in Inr \<lparr>fullMoon = sort (fullMoonYears found),
                        newMoon = sort (newMoonYears found),
                        firstQuarter = sort (firstQuarterYears found),
                        lastQuarter = sort (lastQuarterYears found),
                        eclipses = processEclipseData tzOffset eclipseData birthDate
                                     (Some birthYear)\<rparr>))"

section \<open>The birthday matcher on freshly fetched data\<close>

record UsnoPhase =
  up_date :: string
  up_phase :: string
  up_time :: string

definition monthIndexMap :: "string \<Rightarrow> int option" where
  "monthIndexMap name = map_option (\<lambda>m. m - 1) (monthMap name)"

text \<open>\<open>parseUSNODate\<close>, for dates such as "2024 Mar 25 03:00".\<close>

definition parseUSNODate :: "string \<Rightarrow> ymd option" where
  "parseUSNODate dateStr =
     (let parts = splitOn CHR '' '' (trim dateStr)
      in if length parts < 3 then None
         else (case (js_parseInt (parts ! 0), monthIndexMap (parts ! 1), js_parseInt (parts ! 2)) of
                 (Some year, Some month, Some day) \<Rightarrow> Some (localDate year month day)
               | _ \<Rightarrow> None))"

definition isSameDayMonth :: "ymd \<Rightarrow> ymd option \<Rightarrow> bool" where
  "isSameDayMonth date1 date2 =
     (case (date1, date2) of
        ((y1, m1, d1), Some (y2, m2, d2)) \<Rightarrow> d1 = d2 \<and> m1 = m2
      | (_, None) \<Rightarrow> False)"

text \<open>
  \<open>processMoonPhases\<close>: a year is pushed only when the list does not include it yet.  The
  birth date is the \<open>Date\<close> object the caller made; the pair holds the lists of full-moon
  and of new-moon years.
\<close>

definition moonPhaseStep :: "ymd option \<Rightarrow> int list \<times> int list \<Rightarrow> UsnoPhase \<Rightarrow> int list \<times> int list" where
  "moonPhaseStep birthDate acc phase =
     (case acc of (fullYears, newYears) \<Rightarrow>
        (case parseUSNODate (up_date phase) of
           None \<Rightarrow> acc
         | Some phaseDate \<Rightarrow>
             if isSameDayMonth phaseDate birthDate then
               (let year = fst phaseDate
                in if up_phase phase = ''Full Moon'' \<and> year \<notin> set fullYears
                     then (fullYears @ [year], newYears)
                   else if up_phase phase = ''New Moon'' \<and> year \<notin> set newYears
                     then (fullYears, newYears @ [year])
                   else acc)
             else acc))"

definition processMoonPhases :: "UsnoPhase list \<Rightarrow> ymd option \<Rightarrow> int list \<times> int list" where
  "processMoonPhases phases birthDate =
     (case foldl (moonPhaseStep birthDate) ([], []) phases of
        (fullYears, newYears) \<Rightarrow> (sort fullYears, sort newYears))"






text \<open>A solar eclipse record with the given year, month, day, description and source, for concrete scenarios.\<close>

definition exampleEclipse :: "rat \<Rightarrow> int \<Rightarrow> int \<Rightarrow> string \<Rightarrow> string \<Rightarrow> EclipseRecord" where
  "exampleEclipse y m d descr src =
     \<lparr>ec_year = y, ec_month = m, ec_day = d, ec_date = [], ec_type = ''solar'',
      ec_description = descr, ec_source = src\<rparr>"

text \<open>
  Data for the end-to-end scenarios: a full-moon record of a given day, the dataset
  entry of a successful year holding given phases, and an empty eclipse dataset.
\<close>

definition fullMoonOn :: "int \<Rightarrow> int \<Rightarrow> int \<Rightarrow> string \<Rightarrow> PhaseRecord" where
  "fullMoonOn y m d t = \<lparr>ph_year = y, ph_month = m, ph_day = d, ph_phase = ''Full Moon'', ph_time = t\<rparr>"


definition yearEntry :: "int \<Rightarrow> PhaseRecord list \<Rightarrow> int \<times> PhaseRecord list YearRecord" where
  "yearEntry y ps = (y, \<lparr>yr_year = y, yr_success = True, yr_phases = ps,
                        yr_count = None, yr_error = None\<rparr>)"

definition noEclipses :: EclipseData where
  "noEclipses = \<lparr>solarEclipses = [], lunarEclipses = []\<rparr>"



section \<open>Predicates used in the statements\<close>

definition yearWithin :: "int \<Rightarrow> int \<Rightarrow> EclipseRecord \<Rightarrow> bool" where
  "yearWithin startYear endYear r = (of_int startYear \<le> ec_year r \<and> ec_year r \<le> of_int endYear)"

definition catalogueBounds :: "EclipseRecord \<Rightarrow> bool" where
  "catalogueBounds r =
     (1960 \<le> ec_year r \<and> ec_year r \<le> 2100 \<and> ec_year r \<in> \<int>
      \<and> 1 \<le> ec_month r \<and> ec_month r \<le> 99 \<and> 1 \<le> ec_day r \<and> ec_day r \<le> 99)"

text \<open>The record the failure branches of \<open>fetchMoonPhasesYear\<close> return, but for the message.\<close>

definition failureRecord :: "int \<Rightarrow> string \<Rightarrow> json YearRecord" where
  "failureRecord year msg =
     \<lparr>yr_year = year, yr_success = False, yr_phases = JArr [], yr_count = None, yr_error = Some msg\<rparr>"

text \<open>
  A phase record matches a birthday when its parsed date has the birthday's month and
  day; \<open>matchingYears\<close> lists, in dataset order, the year of every matching record whose
  phase name satisfies \<open>named\<close>, in the successful years from the birth year on.
\<close>

definition phaseMatches :: "int \<Rightarrow> int \<Rightarrow> PhaseRecord \<Rightarrow> bool" where
  "phaseMatches birthMonth birthDay phase =
     (case parseJSONPhaseDate phase of
        None \<Rightarrow> False
      | Some (phaseYear, phaseMonth, phaseDay) \<Rightarrow> phaseMonth = birthMonth \<and> phaseDay = birthDay)"

definition matchingYears ::
  "(string \<Rightarrow> bool) \<Rightarrow> int \<Rightarrow> int \<Rightarrow> int \<Rightarrow> (int \<times> PhaseRecord list YearRecord) list \<Rightarrow> int list" where
  "matchingYears named birthYear birthMonth birthDay entries =
     concat (map (\<lambda>entry.
                    if yr_success (snd entry) \<and> birthYear \<le> fst entry
                    then map (\<lambda>phase. fst entry)
                           (filter (\<lambda>phase. phaseMatches birthMonth birthDay phase \<and> named (ph_phase phase))
                              (yr_phases (snd entry)))
                    else [])
             entries)"

text \<open>An eclipse record matches when its year is not before the birth year and its month and day are the birthday's.\<close>

definition eclipseMatches :: "int \<Rightarrow> int \<Rightarrow> int \<Rightarrow> EclipseRecord \<Rightarrow> bool" where
  "eclipseMatches birthYear birthMonth birthDay eclipse =
     (ec_year eclipse \<ge> of_int birthYear \<and> ec_month eclipse = birthMonth \<and> ec_day eclipse = birthDay)"


definition matchKey :: "EclipseMatch \<Rightarrow> rat \<times> string" where
  "matchKey m = (em_year m, em_type m)"

text \<open>A field of the accumulator receives the year exactly for the phase names \<open>named\<close>.\<close>

definition pushes :: "(MoonYears \<Rightarrow> int list) \<Rightarrow> (string \<Rightarrow> bool) \<Rightarrow> bool" where
  "pushes field named =
     (\<forall>n y acc. field (pushYear n y acc) = field acc @ (if named n then [y] else []))"

text \<open>
  The days on which a dataset records a phase.  \<open>phaseDay\<close> is the month and day a record
  parses to; \<open>bucketOccurrences\<close> lists, for the successful years of the dataset, the year
  key and the day of every record whose phase name satisfies \<open>named\<close>.  A dataset records
  no such phase twice on one day of a year when this list has no repetition.
\<close>

definition phaseDay :: "PhaseRecord \<Rightarrow> (int \<times> int) option" where
  "phaseDay phase =
     (case parseJSONPhaseDate phase of
        None \<Rightarrow> None
      | Some (phaseYear, phaseMonth, phaseDay) \<Rightarrow> Some (phaseMonth, phaseDay))"




section \<open>Properties of the eclipse type classifier\<close>

text \<open>
  Claim C6.  The classifier is total: for every description and each of the categories
  \<open>solar\<close> and \<open>lunar\<close> it returns a non-empty label, in the matcher's version and in
  the summary script's, and when no marker occurs in the description the label is the
  generic one.
\<close>

theorem extractEclipseType_total:
  "(category = ''solar'' \<or> category = ''lunar'' \<longrightarrow>
      extractEclipseType description category \<noteq> []
      \<and> extractEclipseType_summary description category \<noteq> [])
   \<and> (\<not> js_includes description ''   T   '' \<and> \<not> js_includes description ''   A   ''
       \<and> \<not> js_includes description ''   P   '' \<and> \<not> js_includes description ''   H   ''
      \<longrightarrow> extractEclipseType description ''solar'' = ''Solar Eclipse''
          \<and> extractEclipseType_summary description ''solar'' = ''Unspecified'')
   \<and> (\<not> js_includes description ''   T-  '' \<and> \<not> js_includes description ''   T+  ''
       \<and> \<not> js_includes description ''   P   '' \<and> \<not> js_includes description ''   N   ''
      \<longrightarrow> extractEclipseType description ''lunar'' = ''Lunar Eclipse''
          \<and> extractEclipseType_summary description ''lunar'' = ''Unspecified'')"
  by (simp add: extractEclipseType_def extractEclipseType_summary_def)

theorem extractEclipseType_total_witness:
  "extractEclipseType ''2024 Apr 08   T   139'' ''solar'' \<noteq> []
   \<and> extractEclipseType ''no marker here'' ''solar'' = ''Solar Eclipse''
   \<and> extractEclipseType ''no marker here'' ''lunar'' = ''Lunar Eclipse''"
  using extractEclipseType_total [of "''solar''" "''2024 Apr 08   T   139''"]
        extractEclipseType_total [of "''solar''" "''no marker here''"]
  by simp

section \<open>Properties of deduplication and merging\<close>

subsection \<open>The index-based filter keeps first occurrences\<close>

lemma findIndex_neg_iff: "findIndex p xs < 0 \<longleftrightarrow> (\<forall>x\<in>set xs. \<not> p x)"
  by (induction xs) (auto simp: Let_def)

lemma findIndex_neg_eq: "findIndex p xs < 0 \<Longrightarrow> findIndex p xs = -1"
  by (induction xs) (auto simp: Let_def split: if_splits)

lemma findIndex_append_skip:
  "\<forall>x\<in>set ps. \<not> p x \<Longrightarrow> findIndex p (ps @ xs) = (if findIndex p xs < 0 then -1 else int (length ps) + findIndex p xs)"
  by (induction ps) (auto simp: Let_def dest: findIndex_neg_eq)

lemma findIndex_lt_prefix:
  "\<exists>x\<in>set ps. p x \<Longrightarrow> findIndex p (ps @ xs) < int (length ps) \<and> 0 \<le> findIndex p (ps @ xs)"
proof (induction ps)
  case Nil
  then show ?case by simp
next
  case (Cons a ps)
  show ?case
  proof (cases "p a")
    case True
    then show ?thesis by simp
  next
    case False
    with Cons.prems have "\<exists>x\<in>set ps. p x" by auto
    from Cons.IH[OF this] False show ?thesis by (simp add: Let_def)
  qed
qed

lemma findIndex_first_iff:
  "(findIndex p (ps @ x # xs) = int (length ps)) \<longleftrightarrow> (p x \<and> (\<forall>y\<in>set ps. \<not> p y))"
proof (cases "\<exists>y\<in>set ps. p y")
  case True
  with findIndex_lt_prefix[of ps p "x # xs"] show ?thesis by auto
next
  case False
  then show ?thesis by (auto simp: findIndex_append_skip Let_def)
qed

lemma dedupe_suffix:
  "map fst (filter (\<lambda>(e, index). int index = findIndex (\<lambda>e'. key e' = key e) (ps @ xs))
        (zip xs [length ps ..< length ps + length xs]))
   = keepFirst key (key ` set ps) xs"
proof (induction xs arbitrary: ps)
  case Nil
  then show ?case by simp
next
  case (Cons x xs)
  have up: "[length ps ..< length ps + length (x # xs)] = length ps # [length (ps @ [x]) ..< length (ps @ [x]) + length xs]"
    using upt_conv_Cons[of "length ps" "length ps + length (x # xs)"] by simp
  have IH: "map fst (filter (\<lambda>(e, index). int index = findIndex (\<lambda>e'. key e' = key e) (ps @ x # xs))
        (zip xs [length (ps @ [x]) ..< length (ps @ [x]) + length xs]))
   = keepFirst key (key ` set (ps @ [x])) xs"
    using Cons.IH[of "ps @ [x]"] by simp
  have first: "(int (length ps) = findIndex (\<lambda>e'. key e' = key x) (ps @ x # xs)) \<longleftrightarrow> key x \<notin> key ` set ps"
    using findIndex_first_iff[of "\<lambda>e'. key e' = key x" ps x xs] by (auto simp: image_iff)
  show ?case
  proof (cases "key x \<in> key ` set ps")
    case True
    then have "insert (key x) (key ` set ps) = key ` set ps" by auto
    with True first IH up show ?thesis by simp
  next
    case False
    with first IH up show ?thesis by simp
  qed
qed

lemma dedupeBy_keepFirst:
  "dedupeBy (\<lambda>e' e. key e' = key e) xs = keepFirst key {} xs"
  using dedupe_suffix[of key "[]" xs] by (simp add: dedupeBy_def)

lemma set_keepFirst: "set (keepFirst key seen xs) \<subseteq> set xs"
  by (induction xs arbitrary: seen) auto

lemma keys_keepFirst: "key ` set (keepFirst key seen xs) = key ` set xs - seen"
  by (induction xs arbitrary: seen) auto

lemma distinct_keepFirst: "distinct (map key (keepFirst key seen xs))"
  by (induction xs arbitrary: seen) (auto simp: keys_keepFirst)

lemma keepFirst_id: "distinct (map key xs) \<Longrightarrow> key ` set xs \<inter> seen = {} \<Longrightarrow> keepFirst key seen xs = xs"
  by (induction xs arbitrary: seen) auto

lemma keepFirst_all_seen: "key ` set xs \<subseteq> seen \<Longrightarrow> keepFirst key seen xs = []"
  by (induction xs arbitrary: seen) auto

lemma keepFirst_append: "keepFirst key seen (xs @ ys) = keepFirst key seen xs @ keepFirst key (seen \<union> key ` set xs) ys"
  by (induction xs arbitrary: seen) (auto simp: insert_absorb)

lemma filter_keepFirst:
  "filter (\<lambda>e. key e = k) (keepFirst key seen xs) =
     (if k \<in> seen then [] else (case find (\<lambda>e. key e = k) xs of None \<Rightarrow> [] | Some f \<Rightarrow> [f]))"
proof (induction xs arbitrary: seen)
  case Nil
  then show ?case by simp
next
  case (Cons x xs)
  then show ?case by (auto split: option.splits)
qed

lemma sameYearMonth_key: "sameYearMonth = (\<lambda>e' e. yearMonth e' = yearMonth e)"
  by (auto simp: sameYearMonth_def yearMonth_def fun_eq_iff)

lemma mergeEclipses_keepFirst:
  "mergeEclipses a b = sort_key ec_year (keepFirst yearMonth {} (a @ b))"
  by (simp add: mergeEclipses_def sameYearMonth_key dedupeBy_keepFirst)

lemma distinct_map_sort_key: "distinct (map k (sort_key f xs)) = distinct (map k xs)"
  by (simp add: distinct_map)


text \<open>
  Claim C2.  For every two lists of eclipse records the merge step returns the
  concatenation with duplicates removed, keeping the first occurrence per (year, month)
  key (the day is not part of the key), sorted ascending by year: the result is the
  sorted list of first occurrences, its keys are pairwise distinct and are exactly the
  keys of the inputs, and the entries of any key \<open>k\<close> are just the first entry of the
  concatenation with that key.
\<close>

theorem mergeEclipses_first_occurrence_sorted:
  "mergeEclipses a b = sort_key ec_year (keepFirst yearMonth {} (a @ b))
   \<and> sorted (map ec_year (mergeEclipses a b))
   \<and> distinct (map yearMonth (mergeEclipses a b))
   \<and> set (mergeEclipses a b) \<subseteq> set (a @ b)
   \<and> yearMonth ` set (mergeEclipses a b) = yearMonth ` set (a @ b)
   \<and> filter (\<lambda>e. yearMonth e = k) (mergeEclipses a b) =
       (case find (\<lambda>e. yearMonth e = k) (a @ b) of None \<Rightarrow> [] | Some f \<Rightarrow> [f])"
proof -
  let ?r = "keepFirst yearMonth {} (a @ b)"
  have m: "mergeEclipses a b = sort_key ec_year ?r" by (rule mergeEclipses_keepFirst)
  have s: "sorted (map ec_year (sort_key ec_year ?r))" by (rule sorted_sort_key)
  have d: "distinct (map yearMonth (sort_key ec_year ?r))"
    by (simp only: distinct_map_sort_key distinct_keepFirst)
  have sub: "set (sort_key ec_year ?r) \<subseteq> set (a @ b)"
    using set_keepFirst[of yearMonth "{}" "a @ b"] by simp
  have keys: "yearMonth ` set (sort_key ec_year ?r) = yearMonth ` set (a @ b)"
    using keys_keepFirst[of yearMonth "{}" "a @ b"] by simp
  have f: "filter (\<lambda>e. yearMonth e = k) (sort_key ec_year ?r) =
       (case find (\<lambda>e. yearMonth e = k) (a @ b) of None \<Rightarrow> [] | Some f \<Rightarrow> [f])"
    by (simp add: filter_sort filter_keepFirst split: option.splits)
  from m s d sub keys f show ?thesis by simp
qed

text \<open>
  The merge scenario: a catalogue entry and a calculated entry share (2024, 4) with
  different day and description; one entry survives, the first seen.
\<close>

theorem mergeEclipses_first_occurrence_sorted_witness:
  "mergeEclipses [exampleEclipse 2024 4 8 ''   T   '' ''NASA Eclipse Catalog'']
                 [exampleEclipse 2017 8 21 [] ''Saros Cycle Calculation'',
                  exampleEclipse 2024 4 9 [] ''Saros Cycle Calculation'']
   = [exampleEclipse 2017 8 21 [] ''Saros Cycle Calculation'',
      exampleEclipse 2024 4 8 ''   T   '' ''NASA Eclipse Catalog'']"
  using mergeEclipses_first_occurrence_sorted
    [of "[exampleEclipse 2024 4 8 ''   T   '' ''NASA Eclipse Catalog'']"
        "[exampleEclipse 2017 8 21 [] ''Saros Cycle Calculation'',
          exampleEclipse 2024 4 9 [] ''Saros Cycle Calculation'']" "(2024, 4)"]
  by (simp add: exampleEclipse_def yearMonth_def)

text \<open>
  Claim C4 as stated (merging any list with itself gives the list back) fails: the
  merge sorts, so an unsorted list changes order, and it deduplicates, so a list with
  two entries of one (year, month) gets shorter.
\<close>

theorem mergeEclipses_self_counterexample:
  "mergeEclipses [exampleEclipse 2024 4 8 [] [], exampleEclipse 2020 6 21 [] []]
                 [exampleEclipse 2024 4 8 [] [], exampleEclipse 2020 6 21 [] []]
     \<noteq> [exampleEclipse 2024 4 8 [] [], exampleEclipse 2020 6 21 [] []]
   \<and> length (mergeEclipses [exampleEclipse 2024 4 8 [] [], exampleEclipse 2024 4 9 [] []]
                            [exampleEclipse 2024 4 8 [] [], exampleEclipse 2024 4 9 [] []])
     \<noteq> length [exampleEclipse 2024 4 8 [] [], exampleEclipse 2024 4 9 [] []]"
  by (simp add: mergeEclipses_keepFirst exampleEclipse_def yearMonth_def)

text \<open>
  Claim C4, amended.  A list whose (year, month) keys are pairwise distinct and which is
  sorted ascending by year is returned unchanged by the self-merge; every output of the
  merge step is such a list, so the merge step is idempotent.
\<close>

theorem mergeEclipses_self_idempotent:
  "(distinct (map yearMonth l) \<and> sorted (map ec_year l) \<longrightarrow> mergeEclipses l l = l)
   \<and> mergeEclipses (mergeEclipses a b) (mergeEclipses a b) = mergeEclipses a b"
proof -
  have self: "mergeEclipses l l = l" if d: "distinct (map yearMonth l)" and s: "sorted (map ec_year l)" for l
  proof -
    have "keepFirst yearMonth {} (l @ l) = l"
      using d by (simp add: keepFirst_append keepFirst_id keepFirst_all_seen)
    with s show ?thesis by (simp add: mergeEclipses_keepFirst sort_key_id_if_sorted)
  qed
  have d: "distinct (map yearMonth (mergeEclipses a b))"
    by (simp only: mergeEclipses_keepFirst distinct_map_sort_key distinct_keepFirst)
  have s: "sorted (map ec_year (mergeEclipses a b))"
    by (simp add: mergeEclipses_keepFirst)
  from self[OF d s] self show ?thesis by blast
qed

theorem mergeEclipses_self_idempotent_witness:
  "mergeEclipses [exampleEclipse 2020 6 21 [] [], exampleEclipse 2024 4 8 [] []]
                 [exampleEclipse 2020 6 21 [] [], exampleEclipse 2024 4 8 [] []]
   = [exampleEclipse 2020 6 21 [] [], exampleEclipse 2024 4 8 [] []]"
  using mergeEclipses_self_idempotent
    [of "[exampleEclipse 2020 6 21 [] [], exampleEclipse 2024 4 8 [] []]"]
  by (simp add: exampleEclipse_def yearMonth_def)

section \<open>Properties of the Saros-cycle generator\<close>

declare goBackwards.simps [simp del] goForwards.simps [simp del]

lemma js_round_within:
  "of_int s \<le> y \<Longrightarrow> y \<le> of_int e \<Longrightarrow> s \<le> js_round y \<and> js_round y \<le> e"
  unfolding js_round_def by (simp add: le_floor_iff floor_le_iff)

lemma yearWithin_calculatedRecord:
  "yearWithin s e (calculatedRecord t y txt m d) = (of_int s \<le> y \<and> y \<le> of_int e)"
  by (simp add: yearWithin_def calculatedRecord_def)

lemma goBackwards_within:
  "list_all (yearWithin s e) acc \<Longrightarrow> list_all (yearWithin s e) (goBackwards n s e t r year acc)"
proof (induction n s e t r year acc rule: goBackwards.induct)
  case (1 n s e t r year acc)
  show ?case
  proof (cases "year \<ge> of_int s")
    case True
    have "list_all (yearWithin s e)
            (if year \<ge> of_int s \<and> year \<le> of_int e
             then acc @ [calculatedRecord t year (n year) (fst r) (snd r)] else acc)"
      using "1.prems" by (simp add: yearWithin_calculatedRecord)
    from "1.IH"[OF True this] True show ?thesis
      by (subst goBackwards.simps) simp
  next
    case False
    with "1.prems" show ?thesis by (subst goBackwards.simps) simp
  qed
qed

lemma goForwards_within:
  "list_all (yearWithin s e) acc \<Longrightarrow> list_all (yearWithin s e) (goForwards s e t r year acc)"
proof (induction s e t r year acc rule: goForwards.induct)
  case (1 s e t r year acc)
  show ?case
  proof (cases "year \<le> of_int e")
    case True
    have "list_all (yearWithin s e)
            (if year \<ge> of_int s \<and> year \<le> of_int e
             then acc @ [calculatedRecord t (of_int (js_round year)) (showInt (js_round year)) (fst r) (snd r)]
             else acc)"
      using "1.prems" js_round_within[of s year e]
      by (simp add: yearWithin_calculatedRecord)
    from "1.IH"[OF True this] True show ?thesis
      by (subst goForwards.simps) simp
  next
    case False
    with "1.prems" show ?thesis by (subst goForwards.simps) simp
  qed
qed

lemma projectReference_within:
  "list_all (yearWithin s e) acc \<Longrightarrow> list_all (yearWithin s e) (projectReference n s e t acc ref)"
  by (simp add: projectReference_def goBackwards_within goForwards_within split: prod.splits)

lemma foldl_projectReference_within:
  "list_all (yearWithin s e) acc \<Longrightarrow> list_all (yearWithin s e) (foldl (projectReference n s e t) acc refs)"
  by (induction refs arbitrary: acc) (simp_all add: projectReference_within)

lemma sameYearMonthDay_key: "sameYearMonthDay = (\<lambda>e' e. yearMonthDay e' = yearMonthDay e)"
  by (auto simp: sameYearMonthDay_def yearMonthDay_def fun_eq_iff)

lemma calculateEclipses_keepFirst:
  "calculateEclipses n s e t =
     sort_key ec_year (keepFirst yearMonthDay {}
       (foldl (projectReference n s e t) [] (referenceEclipses t)))"
  by (simp add: calculateEclipses_def sameYearMonthDay_key dedupeBy_keepFirst)

lemma list_all_keepFirst: "list_all P xs \<Longrightarrow> list_all P (keepFirst key seen xs)"
  by (induction xs arbitrary: seen) auto

text \<open>
  Claim C10.  Every record returned by the Saros-cycle generator has its year between
  \<open>startYear\<close> and \<open>endYear\<close>, no two returned records share (year, month, day), and
  the list is sorted ascending by year.  This holds for all integer bounds and every
  category, so in particular for \<open>startYear \<le> endYear\<close> and the categories \<open>solar\<close> and
  \<open>lunar\<close>.
\<close>

theorem calculateEclipses_range_unique_sorted:
  "(\<forall>r \<in> set (calculateEclipses numberToString startYear endYear eclipseType).
       of_int startYear \<le> ec_year r \<and> ec_year r \<le> of_int endYear)
   \<and> distinct (map yearMonthDay (calculateEclipses numberToString startYear endYear eclipseType))
   \<and> sorted (map ec_year (calculateEclipses numberToString startYear endYear eclipseType))"
proof -
  let ?all = "foldl (projectReference numberToString startYear endYear eclipseType) []
                (referenceEclipses eclipseType)"
  have "list_all (yearWithin startYear endYear) ?all"
    by (rule foldl_projectReference_within) simp
  then have "list_all (yearWithin startYear endYear) (keepFirst yearMonthDay {} ?all)"
    by (rule list_all_keepFirst)
  then have r: "\<forall>r \<in> set (calculateEclipses numberToString startYear endYear eclipseType).
       of_int startYear \<le> ec_year r \<and> ec_year r \<le> of_int endYear"
    by (simp add: calculateEclipses_keepFirst list_all_iff yearWithin_def)
  have d: "distinct (map yearMonthDay (calculateEclipses numberToString startYear endYear eclipseType))"
    by (simp only: calculateEclipses_keepFirst distinct_map_sort_key distinct_keepFirst)
  have s: "sorted (map ec_year (calculateEclipses numberToString startYear endYear eclipseType))"
    by (simp add: calculateEclipses_keepFirst)
  from r d s show ?thesis by blast
qed

text \<open>The generator on the years 2023 to 2024: the two solar references of that range.\<close>

lemma calculateEclipses_example:
  "map yearMonthDay (calculateEclipses (\<lambda>y. []) 2023 2024 ''solar'') = [(2023, 10, 14), (2024, 4, 8)]"
  by (simp add: calculateEclipses_keepFirst referenceEclipses_def projectReference_def
        goBackwards.simps goForwards.simps sarosCycle_def calculatedRecord_def yearMonthDay_def)

theorem calculateEclipses_range_unique_sorted_witness:
  "map yearMonthDay (calculateEclipses (\<lambda>y. []) 2023 2024 ''solar'') = [(2023, 10, 14), (2024, 4, 8)]
   \<and> list_all (\<lambda>r. 2023 \<le> ec_year r \<and> ec_year r \<le> 2024)
         (calculateEclipses (\<lambda>y. []) 2023 2024 ''solar'')
   \<and> distinct (map yearMonthDay (calculateEclipses (\<lambda>y. []) 2023 2024 ''solar''))
   \<and> sorted (map ec_year (calculateEclipses (\<lambda>y. []) 2023 2024 ''solar''))"
  using calculateEclipses_range_unique_sorted [of "\<lambda>y. []" 2023 2024 "''solar''"]
        calculateEclipses_example
  by (simp add: list_all_iff)

section \<open>Properties of the NASA catalogue parser\<close>

lemma regexSearch_Some: "regexSearch matchAt s = Some g \<Longrightarrow> \<exists>t. matchAt t = Some g"
  by (induction s) (auto split: option.splits)

lemma digit_not_space: "isDigit c \<Longrightarrow> \<not> isWhiteSpace c"
  by (auto simp: isDigit_def isWhiteSpace_def)

lemma digit_not_sign: "isDigit c \<Longrightarrow> c \<noteq> CHR ''-'' \<and> c \<noteq> CHR ''+'' \<and> c \<noteq> CHR ''x'' \<and> c \<noteq> CHR ''X''"
  by (auto simp: isDigit_def)

lemma js_parseInt_digits:
  assumes "list_all isDigit ds" and "ds \<noteq> []"
  shows "js_parseInt ds = Some (digitsValue 10 ds)"
proof -
  from assms obtain a r where ds: "ds = a # r" and a: "isDigit a" and r: "list_all isDigit r"
    by (cases ds) auto
  have s1: "dropWhile isWhiteSpace ds = ds"
    using digit_not_space[OF a] by (simp add: ds)
  have sign: "take 1 ds \<noteq> ''-''" "take 1 ds \<noteq> ''+''"
    using digit_not_sign[OF a] by (simp_all add: ds)
  have nohex: "take 2 ds \<noteq> ''0x''" "take 2 ds \<noteq> ''0X''"
    using r digit_not_sign by (cases r; auto simp: ds)+
  have tw: "takeWhile isDigit ds = ds"
    using assms(1) by (simp add: takeWhile_eq_all_conv list_all_iff)
  show ?thesis
    unfolding js_parseInt_def Let_def s1
    by (simp only: sign nohex tw assms(2) if_False simp_thms)
qed

lemma digitValue_digit: "isDigit c \<Longrightarrow> 0 \<le> digitValue c \<and> digitValue c \<le> 9"
  by (auto simp: digitValue_def isDigit_def)

lemma digitsValue_le2:
  assumes "list_all isDigit ds" and "length ds \<le> 2"
  shows "0 \<le> digitsValue 10 ds \<and> digitsValue 10 ds \<le> 99"
proof (cases ds)
  case Nil
  then show ?thesis by (simp add: digitsValue_def)
next
  case (Cons a r)
  note dsa = this
  show ?thesis
  proof (cases r)
    case Nil
    with dsa assms digitValue_digit[of a] show ?thesis by (simp add: digitsValue_def)
  next
    case (Cons b r')
    with dsa assms have "r' = []" by simp
    with dsa Cons assms digitValue_digit[of a] digitValue_digit[of b]
    show ?thesis by (simp add: digitsValue_def)
  qed
qed

lemma oneOrTwoDigits_Some:
  "oneOrTwoDigits s = Some d \<Longrightarrow> list_all isDigit d \<and> d \<noteq> [] \<and> length d \<le> 2"
  by (auto simp: oneOrTwoDigits_def split: list.splits if_splits)

lemma matchMonthNameAt_Some:
  "matchMonthNameAt s = Some (y, m, d) \<Longrightarrow>
     list_all isDigit y \<and> length y = 4 \<and> list_all isDigit d \<and> d \<noteq> [] \<and> length d \<le> 2"
  by (auto simp: matchMonthNameAt_def Let_def split: if_splits option.splits
           dest: oneOrTwoDigits_Some)

lemma matchISOAt_Some:
  "matchISOAt s = Some (y, m, d) \<Longrightarrow>
     list_all isDigit y \<and> length y = 4 \<and> list_all isDigit m \<and> length m = 2
     \<and> list_all isDigit d \<and> length d = 2"
  by (auto simp: matchISOAt_def Let_def split: if_splits)

lemma matchUSAt_Some:
  "matchUSAt s = Some (m, d, y) \<Longrightarrow>
     list_all isDigit y \<and> length y = 4 \<and> list_all isDigit m \<and> m \<noteq> [] \<and> length m \<le> 2
     \<and> list_all isDigit d \<and> d \<noteq> [] \<and> length d \<le> 2"
  by (auto simp: matchUSAt_def Let_def split: if_splits option.splits
           dest: oneOrTwoDigits_Some)

lemma monthMap_range: "monthMap name = Some m \<Longrightarrow> 1 \<le> m \<and> m \<le> 12"
  by (auto simp: monthMap_def split: if_splits)

lemma parseInt_short:
  "list_all isDigit ds \<Longrightarrow> ds \<noteq> [] \<Longrightarrow> length ds \<le> 2 \<Longrightarrow>
     \<exists>v. js_parseInt ds = Some v \<and> 0 \<le> v \<and> v \<le> 99"
  using js_parseInt_digits[of ds] digitsValue_le2[of ds] by simp

lemma catalogueRecord_bounds:
  assumes "catalogueRecord t line y m d = Some r"
    and "\<And>v. m = Some v \<Longrightarrow> 0 \<le> v \<and> v \<le> 99"
    and "\<And>v. d = Some v \<Longrightarrow> 0 \<le> v \<and> v \<le> 99"
  shows "catalogueBounds r"
  using assms
  by (auto simp: catalogueRecord_def catalogueBounds_def split: option.splits if_splits)

lemma parseNASALine_bounds:
  assumes "parseNASALine t line = Some r"
  shows "catalogueBounds r"
proof (cases "regexSearch matchMonthNameAt line")
  case (Some g)
  obtain y m d where g: "g = (y, m, d)" by (cases g)
  from Some g obtain s where "matchMonthNameAt s = Some (y, m, d)"
    using regexSearch_Some[of matchMonthNameAt line g] by auto
  from matchMonthNameAt_Some[OF this]
  have d: "list_all isDigit d" "d \<noteq> []" "length d \<le> 2" by auto
  from assms Some g
  have c: "catalogueRecord t line (js_parseInt y) (monthMap m) (js_parseInt d) = Some r"
    by (simp add: parseNASALine_def)
  show ?thesis
  proof (rule catalogueRecord_bounds[OF c])
    fix v assume "monthMap m = Some v"
    from monthMap_range[OF this] show "0 \<le> v \<and> v \<le> 99" by simp
  next
    fix v assume "js_parseInt d = Some v"
    with parseInt_short[OF d] show "0 \<le> v \<and> v \<le> 99" by auto
  qed
next
  case None
  note n1 = this
  show ?thesis
  proof (cases "regexSearch matchISOAt line")
    case (Some g)
    obtain y m d where g: "g = (y, m, d)" by (cases g)
    from Some g obtain s where "matchISOAt s = Some (y, m, d)"
      using regexSearch_Some[of matchISOAt line g] by auto
    from matchISOAt_Some[OF this]
    have m: "list_all isDigit m" "m \<noteq> []" "length m \<le> 2"
      and d: "list_all isDigit d" "d \<noteq> []" "length d \<le> 2" by auto
    from assms n1 Some g
    have c: "catalogueRecord t line (js_parseInt y) (js_parseInt m) (js_parseInt d) = Some r"
      by (simp add: parseNASALine_def)
    show ?thesis
    proof (rule catalogueRecord_bounds[OF c])
      fix v assume "js_parseInt m = Some v"
      with parseInt_short[OF m] show "0 \<le> v \<and> v \<le> 99" by auto
    next
      fix v assume "js_parseInt d = Some v"
      with parseInt_short[OF d] show "0 \<le> v \<and> v \<le> 99" by auto
    qed
  next
    case None
    note n2 = this
    show ?thesis
    proof (cases "regexSearch matchUSAt line")
      case (Some g)
      obtain m d y where g: "g = (m, d, y)" by (cases g)
      from Some g obtain s where "matchUSAt s = Some (m, d, y)"
        using regexSearch_Some[of matchUSAt line g] by auto
      from matchUSAt_Some[OF this]
      have m: "list_all isDigit m" "m \<noteq> []" "length m \<le> 2"
        and d: "list_all isDigit d" "d \<noteq> []" "length d \<le> 2" by auto
      from assms n1 n2 Some g
      have c: "catalogueRecord t line (js_parseInt y) (js_parseInt m) (js_parseInt d) = Some r"
        by (simp add: parseNASALine_def)
      show ?thesis
      proof (rule catalogueRecord_bounds[OF c])
        fix v assume "js_parseInt m = Some v"
        with parseInt_short[OF m] show "0 \<le> v \<and> v \<le> 99" by auto
      next
        fix v assume "js_parseInt d = Some v"
        with parseInt_short[OF d] show "0 \<le> v \<and> v \<le> 99" by auto
      qed
    next
      case None
      with assms n1 n2 show ?thesis by (simp add: parseNASALine_def)
    qed
  qed
qed

lemma parseNASALine_monthName:
  assumes "parseNASALine t line = Some r" and "regexSearch matchMonthNameAt line \<noteq> None"
  shows "ec_month r \<le> 12"
proof -
  from assms(2) obtain y m d where "regexSearch matchMonthNameAt line = Some (y, m, d)"
    by (cases "regexSearch matchMonthNameAt line") auto
  with assms(1)
  have "catalogueRecord t line (js_parseInt y) (monthMap m) (js_parseInt d) = Some r"
    by (simp add: parseNASALine_def)
  then show ?thesis
    by (auto simp: catalogueRecord_def split: option.splits if_splits dest: monthMap_range)
qed

lemma foldl_lines_bounds:
  "list_all catalogueBounds acc \<Longrightarrow>
   list_all catalogueBounds
     (foldl (\<lambda>eclipses line. case parseNASALine t line of None \<Rightarrow> eclipses
                                | Some eclipse \<Rightarrow> eclipses @ [eclipse]) acc ls)"
  by (induction ls arbitrary: acc) (auto split: option.splits dest: parseNASALine_bounds)

text \<open>
  Claim C3 as stated fails on the month: the ISO and the US pattern accept any two
  digits as a month, and the guard tests the range of the year only.  The line
  "2024-13-45" gives a record with month 13.
\<close>

theorem parseNASAEclipseData_month_counterexample:
  "\<not> list_all (\<lambda>r. 1 \<le> ec_month r \<and> ec_month r \<le> 12)
       (parseNASAEclipseData ''2024-13-45'' ''solar'')"
  by code_simp

text \<open>
  Claim C3, amended.  Every record the catalogue parser produces has an integral year
  in [1960, 2100] and a month in [1, 99]; the month is in [1, 12] when the line was
  matched in the month-name format, whose month comes from the table of names.
\<close>

theorem parseNASAEclipseData_bounds:
  "(\<forall>r \<in> set (parseNASAEclipseData data eclipseType).
      1960 \<le> ec_year r \<and> ec_year r \<le> 2100 \<and> ec_year r \<in> \<int>
      \<and> 1 \<le> ec_month r \<and> ec_month r \<le> 99)
   \<and> (parseNASALine eclipseType line = Some r
        \<and> regexSearch matchMonthNameAt line \<noteq> None \<longrightarrow> ec_month r \<le> 12)"
proof -
  have "list_all catalogueBounds (parseNASAEclipseData data eclipseType)"
    unfolding parseNASAEclipseData_def by (rule foldl_lines_bounds) simp
  then have a: "\<forall>r \<in> set (parseNASAEclipseData data eclipseType).
      1960 \<le> ec_year r \<and> ec_year r \<le> 2100 \<and> ec_year r \<in> \<int>
      \<and> 1 \<le> ec_month r \<and> ec_month r \<le> 99"
    by (simp add: list_all_iff catalogueBounds_def)
  from a parseNASALine_monthName[of eclipseType line r] show ?thesis by blast
qed

lemma parseNASAEclipseData_example:
  "map yearMonthDay (parseNASAEclipseData ''2024 Apr 08   T   139'' ''solar'') = [(2024, 4, 8)]"
  by code_simp

lemma parseNASALine_example:
  "parseNASALine ''solar'' ''2024 Apr 08   T   139''
     = Some \<lparr>ec_year = 2024, ec_month = 4, ec_day = 8, ec_date = ''2024-04-08'',
              ec_type = ''solar'', ec_description = ''2024 Apr 08   T   139'',
              ec_source = ''NASA Eclipse Catalog''\<rparr>
   \<and> regexSearch matchMonthNameAt ''2024 Apr 08   T   139'' \<noteq> None"
  by code_simp

theorem parseNASAEclipseData_bounds_witness:
  "map yearMonthDay (parseNASAEclipseData ''2024 Apr 08   T   139'' ''solar'') = [(2024, 4, 8)]
   \<and> list_all (\<lambda>r. 1960 \<le> ec_year r \<and> ec_year r \<le> 2100 \<and> 1 \<le> ec_month r \<and> ec_month r \<le> 99)
         (parseNASAEclipseData ''2024 Apr 08   T   139'' ''solar'')
   \<and> (\<exists>r. parseNASALine ''solar'' ''2024 Apr 08   T   139'' = Some r \<and> ec_month r \<le> 12)"
  using parseNASAEclipseData_bounds [of "''2024 Apr 08   T   139''" "''solar''"
          "''2024 Apr 08   T   139''"]
        parseNASAEclipseData_example parseNASALine_example
  by (simp add: list_all_iff)

section \<open>Properties of the batch orchestrator\<close>

lemma fetchMoonPhasesForYear_year [simp]: "mres_year (fetchMoonPhasesForYear http jp y) = y"
  by (simp add: fetchMoonPhasesForYear_def split: sum.splits)

lemma fetchEclipsesForYear_year [simp]: "eres_year (fetchEclipsesForYear http y) = y"
  by (simp add: fetchEclipsesForYear_def Let_def)

lemma dom_foldl_store:
  "dom (foldl (\<lambda>m r. m(key r \<mapsto> r)) m0 rs) = dom m0 \<union> key ` set rs"
  by (induction rs arbitrary: m0) auto

lemma length_filter_both: "length (filter P xs) + length (filter (\<lambda>x. \<not> P x) xs) = length xs"
  by (induction xs) auto

lemma processBatch_fetched:
  "all_fetchedYears (processBatch http jp st ys) = all_fetchedYears st @ ys"
  by (simp add: processBatch_def Let_def)

lemma processBatch_moon:
  "dom (all_moonPhases (processBatch http jp st ys)) = dom (all_moonPhases st) \<union> set ys"
  by (simp add: processBatch_def Let_def dom_foldl_store image_image)

lemma processBatch_eclipses:
  "dom (all_eclipses (processBatch http jp st ys)) = dom (all_eclipses st) \<union> set ys"
  by (simp add: processBatch_def Let_def dom_foldl_store image_image)

lemma processBatch_counts:
  "all_successCount (processBatch http jp st ys) + all_errorCount (processBatch http jp st ys)
     = all_successCount st + all_errorCount st + 2 * length ys"
proof -
  let ?m = "map (fetchMoonPhasesForYear http jp) ys"
  let ?e = "map (fetchEclipsesForYear http) ys"
  have m: "length (filter (\<lambda>r. errorTruthy (mres_error r)) ?m)
           + length (filter (\<lambda>r. \<not> errorTruthy (mres_error r)) ?m) = length ys"
    using length_filter_both[of "\<lambda>r. errorTruthy (mres_error r)" ?m] by simp
  have e: "length (filter (\<lambda>r. errorTruthy (eres_error r)) ?e)
           + length (filter (\<lambda>r. \<not> errorTruthy (eres_error r)) ?e) = length ys"
    using length_filter_both[of "\<lambda>r. errorTruthy (eres_error r)" ?e] by simp
  from m e show ?thesis by (simp add: processBatch_def Let_def)
qed

lemma upto_batches:
  assumes "1 \<le> bs" and "i \<le> e"
  shows "[i .. min (i + bs - 1) e] @ [i + bs .. e] = [i .. e]"
proof (cases "i + bs - 1 \<le> e")
  case True
  then have "min (i + bs - 1) e = i + bs - 1" by simp
  moreover have "[i .. e] = [i .. i + bs - 1] @ [i + bs .. e]"
    using upto_split2[of i "i + bs - 1" e] assms True by simp
  ultimately show ?thesis by simp
next
  case False
  then show ?thesis by simp
qed

lemma batchLoop_returns:
  assumes "1 \<le> bs"
  shows "\<exists>st'. batchLoop http jp bs e i st = Some st'
           \<and> all_fetchedYears st' = all_fetchedYears st @ [i .. e]
           \<and> dom (all_moonPhases st') = dom (all_moonPhases st) \<union> {i .. e}
           \<and> dom (all_eclipses st') = dom (all_eclipses st) \<union> {i .. e}
           \<and> all_successCount st' + all_errorCount st'
               = all_successCount st + all_errorCount st + 2 * length [i .. e]"
proof (induction "nat (e - i + 1)" arbitrary: i st rule: less_induct)
  case less
  show ?case
  proof (cases "i \<le> e")
    case False
    then show ?thesis by (subst batchLoop.simps) simp
  next
    case True
    let ?ys = "[i .. min (i + bs - 1) e]"
    let ?st1 = "processBatch http jp st ?ys"
    have "nat (e - (i + bs) + 1) < nat (e - i + 1)" using True assms by simp
    from less[OF this, of ?st1] obtain st' where
      r: "batchLoop http jp bs e (i + bs) ?st1 = Some st'"
      and f: "all_fetchedYears st' = all_fetchedYears ?st1 @ [i + bs .. e]"
      and m: "dom (all_moonPhases st') = dom (all_moonPhases ?st1) \<union> {i + bs .. e}"
      and ec: "dom (all_eclipses st') = dom (all_eclipses ?st1) \<union> {i + bs .. e}"
      and c: "all_successCount st' + all_errorCount st'
               = all_successCount ?st1 + all_errorCount ?st1 + 2 * length [i + bs .. e]"
      by blast
    have split: "?ys @ [i + bs .. e] = [i .. e]" by (rule upto_batches[OF assms True])
    have sets: "set ?ys \<union> {i + bs .. e} = {i .. e}"
      using arg_cong[OF split, of set] by simp
    have len: "length ?ys + length [i + bs .. e] = length [i .. e]"
      using arg_cong[OF split, of length] by simp
    have run: "batchLoop http jp bs e i st = Some st'"
      using True r by (subst batchLoop.simps) (simp add: Let_def)
    have f': "all_fetchedYears st' = all_fetchedYears st @ [i .. e]"
      using f split by (simp add: processBatch_fetched)
    have m': "dom (all_moonPhases st') = dom (all_moonPhases st) \<union> {i .. e}"
      using m sets by (simp add: processBatch_moon Un_assoc)
    have e': "dom (all_eclipses st') = dom (all_eclipses st) \<union> {i .. e}"
      using ec sets by (simp add: processBatch_eclipses Un_assoc)
    have c': "all_successCount st' + all_errorCount st'
               = all_successCount st + all_errorCount st + 2 * length [i .. e]"
      using c len processBatch_counts[of http jp st ?ys] by simp
    from run f' m' e' c' show ?thesis by blast
  qed
qed

text \<open>
  Claim C5.  For every positive batch size the batching loop returns, and it has issued
  the fetches of exactly the years from \<open>startYear\<close> to \<open>endYear\<close>, each once and in
  order: \<open>endYear - startYear + 1\<close> distinct years, none skipped, none repeated.  Both
  result maps hold exactly these years, and the two counters together count one moon
  and one eclipse fetch per year.
\<close>

theorem orchestrate_every_year_once:
  "1 \<le> batchSize \<Longrightarrow>
   \<exists>allData. orchestrate http JSON_parse startYear endYear batchSize = Some allData
     \<and> all_fetchedYears allData = [startYear .. endYear]
     \<and> distinct (all_fetchedYears allData)
     \<and> length (all_fetchedYears allData) = nat (endYear - startYear + 1)
     \<and> dom (all_moonPhases allData) = {startYear .. endYear}
     \<and> dom (all_eclipses allData) = {startYear .. endYear}
     \<and> all_successCount allData + all_errorCount allData = 2 * nat (endYear - startYear + 1)"
proof -
  assume bs: "1 \<le> batchSize"
  from batchLoop_returns[OF bs, of http JSON_parse endYear startYear
      "\<lparr>all_moonPhases = Map.empty, all_eclipses = Map.empty,
        all_successCount = 0, all_errorCount = 0, all_fetchedYears = []\<rparr>"]
  obtain st' where
    "orchestrate http JSON_parse startYear endYear batchSize = Some st'"
    "all_fetchedYears st' = [startYear .. endYear]"
    "dom (all_moonPhases st') = {startYear .. endYear}"
    "dom (all_eclipses st') = {startYear .. endYear}"
    "all_successCount st' + all_errorCount st' = 2 * length [startYear .. endYear]"
    by (auto simp: orchestrate_def)
  then show ?thesis by simp
qed

text \<open>The source's run, 1960 to 2100 in batches of 5, with every request timing out.\<close>

theorem orchestrate_every_year_once_witness:
  "\<exists>allData. fetchAllAstronomicalData (\<lambda>url. Timeout) (\<lambda>text. Inr JNull) = Some allData
     \<and> length (all_fetchedYears allData) = 141
     \<and> dom (all_moonPhases allData) = {1960 .. 2100}"
  using orchestrate_every_year_once [of 5 "\<lambda>url. Timeout" "\<lambda>text. Inr JNull" 1960 2100]
  by (auto simp: fetchAllAstronomicalData_def)

text \<open>
  The bound on the batch size is needed: with a batch size of 0 or less the counter
  never passes \<open>endYear\<close>, and the loop does not return.
\<close>

lemma batchLoop_never_returns:
  assumes "batchLoop http jp bs e i st = Some y"
  shows "\<not> (bs \<le> 0 \<and> i \<le> e)"
  using assms
proof (induction rule: batchLoop.raw_induct[rotated 1, consumes 1])
  case (1 batchLoop' http jp bs e i st y)
  show ?case
  proof
    assume a: "bs \<le> 0 \<and> i \<le> e"
    with 1(2) have "batchLoop' http jp bs e (i + bs)
        (processBatch http jp st [i .. min (i + bs - 1) e]) = Some y"
      by (simp add: Let_def)
    from 1(1)[OF this] a show False by simp
  qed
qed

lemma orchestrate_nonpositive_batch:
  "batchSize \<le> 0 \<Longrightarrow> startYear \<le> endYear \<Longrightarrow>
     orchestrate http JSON_parse startYear endYear batchSize = None"
  using batchLoop_never_returns[of http JSON_parse batchSize endYear startYear]
  by (cases "orchestrate http JSON_parse startYear endYear batchSize")
     (auto simp: orchestrate_def)

section \<open>Properties of the per-year moon-phase fetch\<close>

lemma fetchMoonPhasesYear_rejected:
  "makeRequest http (moonPhasesUrl year) = Inl e \<Longrightarrow>
     fetchMoonPhasesYear http jp year = Inr (failureRecord year (message e))"
  by (simp add: fetchMoonPhasesYear_def try_catch_def failureRecord_def)

lemma fetchMoonPhasesYear_unparsable:
  "makeRequest http (moonPhasesUrl year) = Inr body \<Longrightarrow> jp body = Inl e \<Longrightarrow>
     fetchMoonPhasesYear http jp year = Inr (failureRecord year (message e))"
  by (simp add: fetchMoonPhasesYear_def try_catch_def failureRecord_def)

lemma fetchMoonPhasesYear_no_phasedata:
  "makeRequest http (moonPhasesUrl year) = Inr body \<Longrightarrow> jp body = Inr data \<Longrightarrow>
   getProp data ''phasedata'' = None \<Longrightarrow>
     fetchMoonPhasesYear http jp year = Inr (failureRecord year ''No phase data in response'')"
  by (simp add: fetchMoonPhasesYear_def try_catch_def failureRecord_def)

lemma fetchMoonPhasesYear_cases:
  "(\<exists>msg. fetchMoonPhasesYear http jp year = Inr (failureRecord year msg))
   \<or> (\<exists>body data phasedata.
         http (moonPhasesUrl year) = Response 200 body \<and> jp body = Inr data
         \<and> getProp data ''phasedata'' = Some phasedata \<and> truthy phasedata
         \<and> fetchMoonPhasesYear http jp year =
             Inr \<lparr>yr_year = year, yr_success = True, yr_phases = phasedata,
                   yr_count = js_length phasedata, yr_error = None\<rparr>)"
  by (auto simp: fetchMoonPhasesYear_def try_catch_def failureRecord_def makeRequest_def
           split: sum.splits option.splits http_outcome.splits if_splits)

lemma fetchMoonPhasesYear_success:
  "http (moonPhasesUrl year) = Response 200 body \<Longrightarrow> jp body = Inr data \<Longrightarrow>
   getProp data ''phasedata'' = Some phasedata \<Longrightarrow> truthy phasedata \<Longrightarrow>
     fetchMoonPhasesYear http jp year =
       Inr \<lparr>yr_year = year, yr_success = True, yr_phases = phasedata,
             yr_count = js_length phasedata, yr_error = None\<rparr>"
  by (cases data) (simp_all add: fetchMoonPhasesYear_def try_catch_def makeRequest_def)

lemma moonYearStep_dom:
  "dom (run_moonPhases (moonYearStep http jp w st year)) = insert year (dom (run_moonPhases st))"
proof -
  from fetchMoonPhasesYear_cases[of http jp year]
  obtain r where "fetchMoonPhasesYear http jp year = Inr r" by blast
  then show ?thesis by (simp add: moonYearStep_def Let_def)
qed

lemma moonYearStep_processed:
  "run_processed (moonYearStep http jp w st year) = run_processed st + 1"
proof -
  from fetchMoonPhasesYear_cases[of http jp year]
  obtain r where "fetchMoonPhasesYear http jp year = Inr r" by blast
  then show ?thesis by (simp add: moonYearStep_def Let_def)
qed

lemma foldl_moonYearStep_dom:
  "dom (run_moonPhases (foldl (moonYearStep http jp w) st ys)) = dom (run_moonPhases st) \<union> set ys"
  by (induction ys arbitrary: st) (auto simp: moonYearStep_dom)

lemma foldl_moonYearStep_processed:
  "run_processed (foldl (moonYearStep http jp w) st ys) = run_processed st + length ys"
  by (induction ys arbitrary: st) (auto simp: moonYearStep_processed)

text \<open>
  Claim C9.  A per-year moon-phase fetch never propagates an error: whatever the request
  and \<open>JSON.parse\<close> do, \<open>fetchMoonPhasesYear\<close> returns a record of its year.  When the
  request rejects, when the text does not parse, and when the parsed value has no
  \<open>phasedata\<close>, the record has \<open>success: false\<close>, the error's message and an empty phases
  list; the record has \<open>success: true\<close> only after a 200 response whose parsed body has a
  truthy \<open>phasedata\<close>, which are then its phases.  The surrounding run goes on to the next
  year each time: it processes all 141 years and stores a record for every year from 1960
  to 2100, also when writing a progress file fails.
\<close>

theorem fetchMoonPhasesYear_never_throws:
  "(\<exists>r. fetchMoonPhasesYear http JSON_parse year = Inr r \<and> yr_year r = year
        \<and> (yr_success r \<longrightarrow>
             (\<exists>body data. http (moonPhasesUrl year) = Response 200 body
                \<and> JSON_parse body = Inr data
                \<and> getProp data ''phasedata'' = Some (yr_phases r) \<and> truthy (yr_phases r)))
        \<and> (\<not> yr_success r \<longrightarrow> yr_phases r = JArr [] \<and> (\<exists>msg. yr_error r = Some msg)))
   \<and> (\<forall>e. makeRequest http (moonPhasesUrl year) = Inl e \<longrightarrow>
          fetchMoonPhasesYear http JSON_parse year = Inr (failureRecord year (message e)))
   \<and> (\<forall>body e. makeRequest http (moonPhasesUrl year) = Inr body \<and> JSON_parse body = Inl e \<longrightarrow>
          fetchMoonPhasesYear http JSON_parse year = Inr (failureRecord year (message e)))
   \<and> (\<forall>body data. makeRequest http (moonPhasesUrl year) = Inr body \<and> JSON_parse body = Inr data
          \<and> getProp data ''phasedata'' = None \<longrightarrow>
          fetchMoonPhasesYear http JSON_parse year =
            Inr (failureRecord year ''No phase data in response''))
   \<and> (\<forall>body data phasedata. http (moonPhasesUrl year) = Response 200 body
          \<and> JSON_parse body = Inr data \<and> getProp data ''phasedata'' = Some phasedata
          \<and> truthy phasedata \<longrightarrow>
          fetchMoonPhasesYear http JSON_parse year =
            Inr \<lparr>yr_year = year, yr_success = True, yr_phases = phasedata,
                  yr_count = js_length phasedata, yr_error = None\<rparr>)
   \<and> dom (run_moonPhases (fetchAllMoonData http JSON_parse writeFileSync)) = {1960 .. 2100}
   \<and> run_processed (fetchAllMoonData http JSON_parse writeFileSync) = 141"
proof -
  have a: "\<exists>r. fetchMoonPhasesYear http JSON_parse year = Inr r \<and> yr_year r = year
        \<and> (yr_success r \<longrightarrow>
             (\<exists>body data. http (moonPhasesUrl year) = Response 200 body
                \<and> JSON_parse body = Inr data
                \<and> getProp data ''phasedata'' = Some (yr_phases r) \<and> truthy (yr_phases r)))
        \<and> (\<not> yr_success r \<longrightarrow> yr_phases r = JArr [] \<and> (\<exists>msg. yr_error r = Some msg))"
    using fetchMoonPhasesYear_cases[of http JSON_parse year]
    by (auto simp: failureRecord_def)
  have run: "dom (run_moonPhases (fetchAllMoonData http JSON_parse writeFileSync)) = {1960 .. 2100}
     \<and> run_processed (fetchAllMoonData http JSON_parse writeFileSync) = 141"
  proof -
    have s: "set [1960 .. 2100 :: int] = {1960 .. 2100}" by (rule set_upto)
    have l: "length [1960 .. 2100 :: int] = 141" by (simp only: length_upto)
    show ?thesis
      by (simp only: fetchAllMoonData_def Let_def foldl_moonYearStep_dom
            foldl_moonYearStep_processed s l MoonRun.simps dom_empty Un_empty_left
            add_0 simp_thms)
  qed
  from a run fetchMoonPhasesYear_rejected[of http year _ JSON_parse]
    fetchMoonPhasesYear_unparsable[of http year _ JSON_parse]
    fetchMoonPhasesYear_no_phasedata[of http year _ JSON_parse]
    fetchMoonPhasesYear_success[of http year _ JSON_parse]
  show ?thesis by blast
qed

text \<open>A 503 response, a body without \<open>phasedata\<close>, and a body with it.\<close>

theorem fetchMoonPhasesYear_never_throws_witness:
  "fetchMoonPhasesYear (\<lambda>url. Response 503 ''busy'') (\<lambda>text. Inr JNull) 1999
     = Inr (failureRecord 1999 ''HTTP 503: busy'')
   \<and> fetchMoonPhasesYear (\<lambda>url. Response 200 ''{}'') (\<lambda>text. Inr (JObj [])) 1999
     = Inr (failureRecord 1999 ''No phase data in response'')
   \<and> fetchMoonPhasesYear (\<lambda>url. Response 200 ''x'')
        (\<lambda>text. Inr (JObj [(''phasedata'', JArr [JStr ''Full Moon''])])) 1999
     = Inr \<lparr>yr_year = 1999, yr_success = True, yr_phases = JArr [JStr ''Full Moon''],
             yr_count = Some (JNum 1), yr_error = None\<rparr>"
proof -
  have r: "makeRequest (\<lambda>url. Response 503 ''busy'') (moonPhasesUrl 1999) = Inl (Error ''HTTP 503: busy'')"
    by code_simp
  have ok: "makeRequest (\<lambda>url. Response 200 ''{}'') (moonPhasesUrl 1999) = Inr ''{}''"
    by (simp add: makeRequest_def)
  from fetchMoonPhasesYear_never_throws
         [of "\<lambda>url. Response 503 ''busy''" "\<lambda>text. Inr JNull" 1999] r
  have 1: "fetchMoonPhasesYear (\<lambda>url. Response 503 ''busy'') (\<lambda>text. Inr JNull) 1999
     = Inr (failureRecord 1999 ''HTTP 503: busy'')"
    by (metis js_error.sel)
  from fetchMoonPhasesYear_never_throws
         [of "\<lambda>url. Response 200 ''{}''" "\<lambda>text. Inr (JObj [])" 1999] ok
  have 2: "fetchMoonPhasesYear (\<lambda>url. Response 200 ''{}'') (\<lambda>text. Inr (JObj [])) 1999
     = Inr (failureRecord 1999 ''No phase data in response'')"
    by simp
  from fetchMoonPhasesYear_never_throws
         [of "\<lambda>url. Response 200 ''x''"
             "\<lambda>text. Inr (JObj [(''phasedata'', JArr [JStr ''Full Moon''])])" 1999]
  have 3: "fetchMoonPhasesYear (\<lambda>url. Response 200 ''x'')
        (\<lambda>text. Inr (JObj [(''phasedata'', JArr [JStr ''Full Moon''])])) 1999
     = Inr \<lparr>yr_year = 1999, yr_success = True, yr_phases = JArr [JStr ''Full Moon''],
             yr_count = Some (JNum 1), yr_error = None\<rparr>"
    by simp
  from 1 2 3 show ?thesis by blast
qed

section \<open>Properties of the birthday matcher\<close>

declare normaliseDay.simps [simp del]

subsection \<open>The year lists of the pre-fetched path\<close>

lemma pushYear_fields:
  "fullMoonYears (pushYear n y acc) = fullMoonYears acc @ (if n = ''Full Moon'' then [y] else [])"
  "newMoonYears (pushYear n y acc) = newMoonYears acc @ (if n = ''New Moon'' then [y] else [])"
  "firstQuarterYears (pushYear n y acc)
     = firstQuarterYears acc @ (if n = ''First Quarter'' then [y] else [])"
  "lastQuarterYears (pushYear n y acc)
     = lastQuarterYears acc @ (if n = ''Last Quarter'' \<or> n = ''Third Quarter'' then [y] else [])"
  by (simp_all add: pushYear_def)

lemma pushes_fields:
  "pushes fullMoonYears (\<lambda>n. n = ''Full Moon'')"
  "pushes newMoonYears (\<lambda>n. n = ''New Moon'')"
  "pushes firstQuarterYears (\<lambda>n. n = ''First Quarter'')"
  "pushes lastQuarterYears (\<lambda>n. n = ''Last Quarter'' \<or> n = ''Third Quarter'')"
  by (simp_all add: pushes_def pushYear_fields)

lemma phaseStep_field:
  assumes "pushes field named"
  shows "field (phaseStep bm bd y acc p)
           = field acc @ (if phaseMatches bm bd p \<and> named (ph_phase p) then [y] else [])"
  using assms
  by (auto simp: phaseStep_def phaseMatches_def pushes_def split: option.splits)

lemma foldl_phaseStep_field:
  assumes "pushes field named"
  shows "field (foldl (phaseStep bm bd y) acc ps)
           = field acc @ map (\<lambda>p. y) (filter (\<lambda>p. phaseMatches bm bd p \<and> named (ph_phase p)) ps)"
  by (induction ps arbitrary: acc) (simp_all add: phaseStep_field[OF assms])

lemma yearStep_field:
  assumes "pushes field named"
  shows "field (yearStep by bm bd acc entry)
           = field acc @ (if yr_success (snd entry) \<and> by \<le> fst entry
                          then map (\<lambda>p. fst entry)
                                 (filter (\<lambda>p. phaseMatches bm bd p \<and> named (ph_phase p))
                                    (yr_phases (snd entry)))
                          else [])"
  by (cases entry) (simp add: yearStep_def foldl_phaseStep_field[OF assms])

lemma foldl_yearStep_field:
  assumes "pushes field named"
  shows "field (foldl (yearStep by bm bd) acc entries)
           = field acc @ matchingYears named by bm bd entries"
  by (induction entries arbitrary: acc)
     (simp_all add: yearStep_field[OF assms] matchingYears_def)

lemma processJSON_lists:
  assumes "newDateLocal tz bdate = Some (by, bm, bd)"
  shows "\<exists>r. processJSONAstronomicalData tz (Some entries) ed bdate = Inr r
     \<and> fullMoon r = sort (matchingYears (\<lambda>n. n = ''Full Moon'') by bm bd entries)
     \<and> newMoon r = sort (matchingYears (\<lambda>n. n = ''New Moon'') by bm bd entries)
     \<and> firstQuarter r = sort (matchingYears (\<lambda>n. n = ''First Quarter'') by bm bd entries)
     \<and> lastQuarter r
         = sort (matchingYears (\<lambda>n. n = ''Last Quarter'' \<or> n = ''Third Quarter'') by bm bd entries)
     \<and> eclipses r = processEclipseData tz ed bdate (Some by)"
  using assms
  by (simp add: processJSONAstronomicalData_def Let_def
        foldl_yearStep_field[OF pushes_fields(1)] foldl_yearStep_field[OF pushes_fields(2)]
        foldl_yearStep_field[OF pushes_fields(3)] foldl_yearStep_field[OF pushes_fields(4)])

lemma matchingYears_ge: "y \<in> set (matchingYears named by bm bd entries) \<Longrightarrow> by \<le> y"
  by (auto simp: matchingYears_def split: if_splits)

lemma matchingYears_mem:
  "(y, yd) \<in> set entries \<Longrightarrow> yr_success yd \<Longrightarrow> by \<le> y \<Longrightarrow> p \<in> set (yr_phases yd) \<Longrightarrow>
   phaseMatches bm bd p \<Longrightarrow> named (ph_phase p) \<Longrightarrow> y \<in> set (matchingYears named by bm bd entries)"
  by (force simp: matchingYears_def)







subsection \<open>The year lists of the fresh-data path\<close>




subsection \<open>Valid phase records\<close>

lemma isLeapYear_two_digit: "0 < y \<Longrightarrow> y \<le> 99 \<Longrightarrow> isLeapYear (1900 + y) = isLeapYear y"
  unfolding isLeapYear_def by presburger

lemma normaliseDay_valid: "1 \<le> d \<Longrightarrow> d \<le> daysInMonth y m \<Longrightarrow> normaliseDay y m d = (y, m, d)"
  by (subst normaliseDay.simps) simp

lemma parseJSONPhaseDate_valid:
  assumes "validDate (ph_year p, ph_month p, ph_day p)" and "ph_year p \<noteq> 0"
  shows "\<exists>y. parseJSONPhaseDate p = Some (y, ph_month p, ph_day p)"
proof -
  let ?y = "if 0 \<le> ph_year p \<and> ph_year p \<le> 99 then 1900 + ph_year p else ph_year p"
  from assms have m: "1 \<le> ph_month p" "ph_month p \<le> 12" and d: "1 \<le> ph_day p"
    and dm: "ph_day p \<le> daysInMonth (ph_year p) (ph_month p)"
    by (simp_all add: validDate_def)
  have "daysInMonth ?y (ph_month p) = daysInMonth (ph_year p) (ph_month p)"
    using assms(2) isLeapYear_two_digit[of "ph_year p"] by (simp add: daysInMonth_def)
  with dm have "ph_day p \<le> daysInMonth ?y (ph_month p)" by simp
  from normaliseDay_valid[OF d this]
  have "localDate (ph_year p) (ph_month p - 1) (ph_day p) = (?y, ph_month p, ph_day p)"
    by (simp add: localDate_def)
  with m d assms(2) show ?thesis
    by (auto simp: parseJSONPhaseDate_def Let_def)
qed

lemma phaseMatches_valid:
  "validDate (ph_year p, ph_month p, ph_day p) \<Longrightarrow> ph_year p \<noteq> 0 \<Longrightarrow>
     phaseMatches bm bd p = (ph_month p = bm \<and> ph_day p = bd)"
  using parseJSONPhaseDate_valid[of p] by (auto simp: phaseMatches_def)

text \<open>
  With a host at or east of UTC the date text is read back as written, and the matcher
  does what the scenario expects: every valid record of a successful year from the
  birth year on that has the birthday's month and day puts its year into the list of its
  phase, and no list holds a year before the birth year.
\<close>

lemma newDateLocal_east:
  "0 \<le> tz \<Longrightarrow> parseISODate bdate = Some date \<Longrightarrow> newDateLocal tz bdate = Some date"
  by (simp add: newDateLocal_def)

lemma processJSON_matches_east_of_UTC:
  assumes tz: "0 \<le> tz" and b: "parseISODate bdate = Some (by, bm, bd)"
  shows "\<exists>r. processJSONAstronomicalData tz (Some entries) ed bdate = Inr r
     \<and> (\<forall>y yd p. (y, yd) \<in> set entries \<and> yr_success yd \<and> by \<le> y \<and> p \<in> set (yr_phases yd)
            \<and> validDate (ph_year p, ph_month p, ph_day p) \<and> ph_year p \<noteq> 0
            \<and> ph_month p = bm \<and> ph_day p = bd \<longrightarrow>
            (ph_phase p = ''Full Moon'' \<longrightarrow> y \<in> set (fullMoon r))
            \<and> (ph_phase p = ''New Moon'' \<longrightarrow> y \<in> set (newMoon r))
            \<and> (ph_phase p = ''First Quarter'' \<longrightarrow> y \<in> set (firstQuarter r))
            \<and> (ph_phase p = ''Last Quarter'' \<longrightarrow> y \<in> set (lastQuarter r)))
     \<and> (\<forall>y \<in> set (fullMoon r) \<union> set (newMoon r) \<union> set (firstQuarter r) \<union> set (lastQuarter r).
            by \<le> y)"
proof -
  from processJSON_lists[OF newDateLocal_east[OF tz b], of entries ed]
  obtain r where r: "processJSONAstronomicalData tz (Some entries) ed bdate = Inr r"
    and f: "fullMoon r = sort (matchingYears (\<lambda>n. n = ''Full Moon'') by bm bd entries)"
    and n: "newMoon r = sort (matchingYears (\<lambda>n. n = ''New Moon'') by bm bd entries)"
    and q: "firstQuarter r = sort (matchingYears (\<lambda>n. n = ''First Quarter'') by bm bd entries)"
    and l: "lastQuarter r
         = sort (matchingYears (\<lambda>n. n = ''Last Quarter'' \<or> n = ''Third Quarter'') by bm bd entries)"
    by blast
  have mem: "y \<in> set (matchingYears named by bm bd entries)"
    if h: "(y, yd) \<in> set entries \<and> yr_success yd \<and> by \<le> y \<and> p \<in> set (yr_phases yd)
            \<and> validDate (ph_year p, ph_month p, ph_day p) \<and> ph_year p \<noteq> 0
            \<and> ph_month p = bm \<and> ph_day p = bd" and nm: "named (ph_phase p)" for y yd p named
  proof -
    from h phaseMatches_valid[of p bm bd] have "phaseMatches bm bd p" by blast
    with h nm show ?thesis using matchingYears_mem[of y yd entries "by" p bm bd named] by blast
  qed
  have ge: "\<forall>y \<in> set (fullMoon r) \<union> set (newMoon r) \<union> set (firstQuarter r) \<union> set (lastQuarter r).
            by \<le> y"
    using matchingYears_ge by (auto simp: f n q l)
  have each: "(ph_phase p = ''Full Moon'' \<longrightarrow> y \<in> set (fullMoon r))
            \<and> (ph_phase p = ''New Moon'' \<longrightarrow> y \<in> set (newMoon r))
            \<and> (ph_phase p = ''First Quarter'' \<longrightarrow> y \<in> set (firstQuarter r))
            \<and> (ph_phase p = ''Last Quarter'' \<longrightarrow> y \<in> set (lastQuarter r))"
    if h: "(y, yd) \<in> set entries \<and> yr_success yd \<and> by \<le> y \<and> p \<in> set (yr_phases yd)
            \<and> validDate (ph_year p, ph_month p, ph_day p) \<and> ph_year p \<noteq> 0
            \<and> ph_month p = bm \<and> ph_day p = bd" for y yd p
  proof (intro conjI impI)
    assume a: "ph_phase p = ''Full Moon''"
    from mem[OF h, of "\<lambda>n. n = ''Full Moon''"] a show "y \<in> set (fullMoon r)"
      by (simp add: f)
  next
    assume a: "ph_phase p = ''New Moon''"
    from mem[OF h, of "\<lambda>n. n = ''New Moon''"] a show "y \<in> set (newMoon r)"
      by (simp add: n)
  next
    assume a: "ph_phase p = ''First Quarter''"
    from mem[OF h, of "\<lambda>n. n = ''First Quarter''"] a show "y \<in> set (firstQuarter r)"
      by (simp add: q)
  next
    assume a: "ph_phase p = ''Last Quarter''"
    from mem[OF h, of "\<lambda>n. n = ''Last Quarter'' \<or> n = ''Third Quarter''"] a show "y \<in> set (lastQuarter r)"
      by (simp add: l)
  qed
  from r each ge show ?thesis by blast
qed

subsection \<open>The eclipse results\<close>

lemma foldl_pushMatching:
  "foldl (pushMatching fy bm bd cat c) acc es
     = acc @ map (eclipseMatch cat c) (filter (eclipseMatches fy bm bd) es)"
  by (induction es arbitrary: acc) (simp_all add: pushMatching_def eclipseMatches_def)

lemma processEclipseData_matches:
  assumes "newDateLocal tz bdate = Some (by, bm, bd)"
  shows "processEclipseData tz ed bdate (Some by)
     = sort_key em_year
         (map (eclipseMatch ''solar'' ''Solar'') (filter (eclipseMatches by bm bd) (solarEclipses ed))
          @ map (eclipseMatch ''lunar'' ''Lunar'') (filter (eclipseMatches by bm bd) (lunarEclipses ed)))"
  using assms by (simp add: processEclipseData_def Let_def foldl_pushMatching)

lemma extractEclipseType_solar_lunar: "extractEclipseType d ''solar'' \<noteq> extractEclipseType d' ''lunar''"
  by (simp add: extractEclipseType_def)





text \<open>The eclipse list of \<open>processJSONAstronomicalData\<close> is a result of \<open>processEclipseData\<close>.\<close>

lemma processJSON_eclipses:
  "processJSONAstronomicalData tz (Some entries) ed bdate = Inr r \<Longrightarrow>
   \<exists>birthYear. eclipses r = processEclipseData tz ed bdate birthYear"
  by (auto simp: processJSONAstronomicalData_def Let_def split: option.splits prod.splits)









lemma newDateLocal_at_UTC: "newDateLocal 0 ''1999-08-11'' = Some (1999, 8, 11)"
  by code_simp

text \<open>
  A day past the end of its month is carried over, a day past 31 or a month past 12 is
  not a date, and the matcher then returns empty lists.
\<close>

lemma newDateLocal_rolls_over:
  "newDateLocal 0 ''1999-02-30'' = Some (1999, 3, 2)
   \<and> newDateLocal 0 ''1999-02-32'' = None
   \<and> newDateLocal 0 ''1999-13-01'' = None"
  by code_simp

text \<open>
  Claim C1 says that with the birth date 1999-08-11 and a full-moon record of 11 August
  2030 the full-moon list contains 2030, and that no list holds a year before the birth
  year.  The matcher does not do this on a host west of UTC (here five hours, an offset
  of -300 minutes).  The date text denotes midnight UTC, which is still 10 August in
  local time there, so the matcher compares with day 10 and the full moon of 11 August
  2030 is not found.  With the birth date 1 January 1999 the birth year it reads is 1998,
  and the year 1998 enters the full-moon list.
\<close>

theorem processJSON_west_of_UTC_misses_birthday:
  "processJSONAstronomicalData (-300) (Some [yearEntry 2030 [fullMoonOn 2030 8 11 ''12:00'']])
       noEclipses ''1999-08-11''
     = Inr \<lparr>fullMoon = [], newMoon = [], firstQuarter = [], lastQuarter = [], eclipses = []\<rparr>
   \<and> processJSONAstronomicalData (-300) (Some [yearEntry 1998 [fullMoonOn 1998 12 31 ''12:00'']])
       noEclipses ''1999-01-01''
     = Inr \<lparr>fullMoon = [1998], newMoon = [], firstQuarter = [], lastQuarter = [], eclipses = []\<rparr>"
  by code_simp

text \<open>On a host at UTC the same dataset and birth date give the expected list.\<close>

lemma processJSON_at_UTC_finds_birthday:
  "processJSONAstronomicalData 0 (Some [yearEntry 2030 [fullMoonOn 2030 8 11 ''12:00'']])
       noEclipses ''1999-08-11''
     = Inr \<lparr>fullMoon = [2030], newMoon = [], firstQuarter = [], lastQuarter = [], eclipses = []\<rparr>"
  by code_simp

subsection \<open>Each year once in the moon-phase lists\<close>





text \<open>
  The condition on the dataset cannot be dropped.  \<open>processJSONAstronomicalData\<close> pushes the
  year of every matching record and has no membership test of its own, where
  \<open>processMoonPhases\<close> has one: were a year to hold the full moon of one day twice, the
  first would list the year twice and the second once.
\<close>

lemma processJSON_repeated_record:
  "processJSONAstronomicalData 0
     (Some [yearEntry 2030 [fullMoonOn 2030 8 11 ''03:10'', fullMoonOn 2030 8 11 ''23:59'']]) noEclipses ''1999-08-11''
     = Inr \<lparr>fullMoon = [2030, 2030], newMoon = [], firstQuarter = [], lastQuarter = [],
             eclipses = []\<rparr>"
  by code_simp

lemma processMoonPhases_repeated_record:
  "processMoonPhases
     [\<lparr>up_date = ''2030 Aug 11 03:10'', up_phase = ''Full Moon'', up_time = []\<rparr>,
      \<lparr>up_date = ''2030 Aug 11 23:59'', up_phase = ''Full Moon'', up_time = []\<rparr>]
     (Some (1999, 8, 11))
   = ([2030], [])"
  by code_simp

subsection \<open>One eclipse result per year and type\<close>





text \<open>
  The condition on the lists cannot be dropped.  \<open>processEclipseData\<close> sorts without removing
  duplicates, where \<open>processEclipses\<close> removes them: were a list to hold two records of
  one day with the same type, both would be returned.
\<close>

lemma processEclipseData_repeated_record:
  "map matchKey (processEclipseData 0
       \<lparr>solarEclipses = [exampleEclipse 2024 8 11 ''2024 Aug 11   T   a'' ''NASA Eclipse Catalog'',
                         exampleEclipse 2024 8 11 ''2024 Aug 11   T   b'' ''NASA Eclipse Catalog''],
        lunarEclipses = []\<rparr> ''1999-08-11'' (Some 1999))
   = [(2024, ''Total Solar Eclipse''), (2024, ''Total Solar Eclipse'')]"
  by code_simp

end
